theory Spec2Isabelle
  imports Complex_Main "HOL-Library.Sublist"
begin

section \<open>Python values, dictionaries and errors\<close>

text \<open>
  The plot configuration of \<^verbatim>\<open>multiqc/plots/plotly/plot.py\<close> is an open dictionary with
  heterogeneous values. Values are modelled by \<open>pyval\<close>; a float is an ideal real number
  (no rounding, no infinities, no NaN), a dictionary is an association list with string
  keys in which the first entry for a key is the live one.
\<close>

datatype pyval =
    PNone
  | PBool bool
  | PInt int
  | PFloat real
  | PStr string
  | PList "pyval list"
  | PDict "(string \<times> pyval) list"

type_synonym pydict = "(string \<times> pyval) list"

datatype error =
    ValueError string
  | KeyError string
  | IndexError
  | TypeError
  | AttributeError
  | AssertionError
  | ValidationError

text \<open>\<^verbatim>\<open>k in d\<close>, \<^verbatim>\<open>d.get(k, default)\<close>, \<^verbatim>\<open>d[k] = v\<close>, \<^verbatim>\<open>d.pop(k)\<close> and
  \<^verbatim>\<open>d.update(e)\<close> on dictionaries.\<close>

definition dict_has :: "pydict \<Rightarrow> string \<Rightarrow> bool" where
  "dict_has d k = (map_of d k \<noteq> None)"

definition dict_get :: "pydict \<Rightarrow> string \<Rightarrow> pyval \<Rightarrow> pyval" where
  "dict_get d k dflt = (case map_of d k of Some v \<Rightarrow> v | None \<Rightarrow> dflt)"

definition dict_set :: "pydict \<Rightarrow> string \<Rightarrow> pyval \<Rightarrow> pydict" where
  "dict_set d k v =
     (if dict_has d k then map (\<lambda>(k', v'). if k' = k then (k', v) else (k', v')) d
      else d @ [(k, v)])"

definition dict_del :: "pydict \<Rightarrow> string \<Rightarrow> pydict" where
  "dict_del d k = filter (\<lambda>(k', v'). k' \<noteq> k) d"

definition dict_pop :: "pydict \<Rightarrow> string \<Rightarrow> error + (pyval \<times> pydict)" where
  "dict_pop d k =
     (case map_of d k of
        None \<Rightarrow> Inl (KeyError k)
      | Some v \<Rightarrow> Inr (v, dict_del d k))"

definition dict_update :: "pydict \<Rightarrow> pydict \<Rightarrow> pydict" where
  "dict_update d e = foldl (\<lambda>acc (k, v). dict_set acc k v) d e"

text \<open>Truthiness of a value, as \<^verbatim>\<open>if v:\<close>, \<^verbatim>\<open>v or w\<close> and \<^verbatim>\<open>v and w\<close> test it.\<close>

fun truthy :: "pyval \<Rightarrow> bool" where
  "truthy PNone = False"
| "truthy (PBool b) = b"
| "truthy (PInt i) = (i \<noteq> 0)"
| "truthy (PFloat r) = (r \<noteq> 0)"
| "truthy (PStr s) = (s \<noteq> [])"
| "truthy (PList l) = (l \<noteq> [])"
| "truthy (PDict d) = (d \<noteq> [])"

section \<open>Renaming deprecated HighCharts keys\<close>

text \<open>
  \<^verbatim>\<open>rename_deprecated_highcharts_keys\<close> works on a copy of \<open>conf\<close>. The first branch
  tests for the key \<^verbatim>\<open>yCeiling\<close> and pops the key \<^verbatim>\<open>y_ceiling\<close>; a pop of a missing key
  raises \<^verbatim>\<open>KeyError\<close>.
\<close>

definition rename_deprecated_highcharts_keys :: "pydict \<Rightarrow> error + pydict" where
  "rename_deprecated_highcharts_keys conf =
     (case (if dict_has conf ''yCeiling''
            then (case dict_pop conf ''y_ceiling'' of
                    Inl e \<Rightarrow> Inl e
                  | Inr (v, c) \<Rightarrow> Inr (dict_set c ''yaxis'' v))
            else Inr conf) of
        Inl e \<Rightarrow> Inl e
      | Inr conf1 \<Rightarrow>
          (case (if dict_has conf1 ''xAxis''
                 then (case dict_pop conf1 ''xAxis'' of
                         Inl e \<Rightarrow> Inl e
                       | Inr (v, c) \<Rightarrow> Inr (dict_set c ''xaxis'' v))
                 else Inr conf1) of
             Inl e \<Rightarrow> Inl e
           | Inr conf2 \<Rightarrow>
               (if dict_has conf2 ''tooltip''
                then (case dict_pop conf2 ''tooltip'' of
                        Inl e \<Rightarrow> Inl e
                      | Inr (v, c) \<Rightarrow> Inr (dict_set c ''hovertemplate'' v))
                else Inr conf2)))"

section \<open>Logarithmic axis bounds\<close>

text \<open>
  The expression \<^verbatim>\<open>math.log10(v) if v is not None and v > 0 else None\<close> occurs four
  times in the source (twice in \<^verbatim>\<open>Plot.get_figure\<close>, twice in \<^verbatim>\<open>_set_axis_log_scale\<close>).
  A Python bool compares as the integer 0 or 1; comparing a string, list or dictionary
  with \<^verbatim>\<open>0\<close> raises \<^verbatim>\<open>TypeError\<close>.
\<close>

fun log10_or_none :: "pyval \<Rightarrow> error + pyval" where
  "log10_or_none PNone = Inr PNone"
| "log10_or_none (PBool b) = Inr (if b then PFloat (log 10 1) else PNone)"
| "log10_or_none (PInt i) = Inr (if i > 0 then PFloat (log 10 (real_of_int i)) else PNone)"
| "log10_or_none (PFloat r) = Inr (if r > 0 then PFloat (log 10 r) else PNone)"
| "log10_or_none (PStr s) = Inl TypeError"
| "log10_or_none (PList l) = Inl TypeError"
| "log10_or_none (PDict d) = Inl TypeError"

section \<open>Layouts, datasets and plots\<close>

text \<open>
  A \<^verbatim>\<open>go.Layout\<close> object is modelled by the properties this module reads or writes:
  the title text, the two axes that \<^verbatim>\<open>Plot.initialize\<close> constructs, height, width and
  \<^verbatim>\<open>showlegend\<close>. The constant styling properties (colours, fonts, margins, legend
  position) are left out. An unset property is \<open>PNone\<close>. The validators of the plotting
  library, which may reject or coerce a property value, are not modelled.

  A hover format is either unset, a literal format string, or the f-string
  \<^verbatim>\<open>f",.{decimals}f"\<close>, kept symbolic as \<open>DecimalsFormat decimals\<close> because the text of a
  float is not a function of a real number.
\<close>

datatype hoverformat = NoFormat | Format string | DecimalsFormat pyval

record autorangeoptions =
  clipmin :: pyval
  clipmax :: pyval
  minallowed :: pyval
  maxallowed :: pyval

record go_axis =
  ax_type :: pyval
  ax_hoverformat :: hoverformat
  ax_ticksuffix :: pyval
  ax_title_text :: pyval
  ax_rangemode :: pyval
  ax_autorangeoptions :: autorangeoptions

record go_layout =
  lo_title_text :: pyval
  lo_xaxis :: go_axis
  lo_yaxis :: go_axis
  lo_height :: pyval
  lo_width :: pyval
  lo_showlegend :: bool

text \<open>The dictionaries that \<^verbatim>\<open>_dataset_layout\<close> returns as a dataset's layout.\<close>

record axis_dict =
  ad_hoverformat :: hoverformat
  ad_ticksuffix :: pyval
  ad_title_text :: pyval
  ad_rangemode :: string
  ad_autorangeoptions :: autorangeoptions

record layout_dict =
  ld_title_text :: pyval
  ld_xaxis :: axis_dict
  ld_yaxis :: axis_dict

datatype PlotType = LINE | VIOLIN | BAR | SCATTER | HEATMAP | BOX

text \<open>
  \<^verbatim>\<open>BaseDataset\<close>. The field \<open>label\<close> is declared \<^verbatim>\<open>str\<close>, but \<^verbatim>\<open>Plot.initialize\<close> assigns
  it after construction, where the model class does not validate: it holds whatever
  value was assigned.
\<close>

record dataset =
  plot_id :: string
  label :: pyval
  uid :: string
  dconfig :: pydict
  ds_layout :: layout_dict
  trace_params :: pydict
  pct_range :: "(string \<times> pydict) list"

record pct_axis_update =
  pau_ticksuffix :: pyval
  pau_hoverformat :: hoverformat

type_synonym addr = nat

text \<open>
  \<^verbatim>\<open>Plot\<close>. Layout objects are mutable and live in a store; a plot holds the address of
  its layout, so that a write through an alias of \<^verbatim>\<open>self.layout\<close> would be visible.
\<close>

record plot =
  p_id :: string
  plot_type :: PlotType
  layout :: addr
  datasets :: "dataset list"
  pconfig :: pydict
  add_log_tab :: bool
  add_pct_tab :: bool
  l_active :: bool
  p_active :: bool
  pct_axis_update :: pct_axis_update
  axis_controlled_by_switches :: "string list"
  square :: bool
  flat :: bool

text \<open>
  The state: the store of layout objects with the next free address, the records sent
  to the logger and the list \<^verbatim>\<open>report.lint_errors\<close>.
\<close>

datatype log_record =
    Error_title_missing pyval
  | Warning_invalid_data_labels_type pyval

record state =
  cells :: "addr \<Rightarrow> go_layout"
  fresh :: addr
  logged :: "log_record list"
  lint_errors :: "log_record list"

definition new_Layout :: "state \<Rightarrow> go_layout \<Rightarrow> state \<times> addr" where
  "new_Layout s v = (s\<lparr>cells := (cells s)(fresh s := v), fresh := Suc (fresh s)\<rparr>, fresh s)"

definition store :: "state \<Rightarrow> addr \<Rightarrow> go_layout \<Rightarrow> state" where
  "store s a v = s\<lparr>cells := (cells s)(a := v)\<rparr>"

text \<open>\<^verbatim>\<open>layout[axis]\<close>: the two axes of the model; any other property name is a key
  error.\<close>

definition get_axis :: "go_layout \<Rightarrow> string \<Rightarrow> error + go_axis" where
  "get_axis lay axis =
     (if axis = ''xaxis'' then Inr (lo_xaxis lay)
      else if axis = ''yaxis'' then Inr (lo_yaxis lay)
      else Inl (KeyError axis))"

definition set_axis :: "go_layout \<Rightarrow> string \<Rightarrow> go_axis \<Rightarrow> go_layout" where
  "set_axis lay axis ax =
     (if axis = ''xaxis'' then lay\<lparr>lo_xaxis := ax\<rparr>
      else if axis = ''yaxis'' then lay\<lparr>lo_yaxis := ax\<rparr>
      else lay)"

text \<open>
  \<^verbatim>\<open>_set_axis_log_scale(axis)\<close> writes into the axis object it is given. The result is
  the axis after the call and the exception, if one was raised on the way.
\<close>

definition set_axis_log_scale :: "go_axis \<Rightarrow> go_axis \<times> error option" where
  "set_axis_log_scale axis =
     (let axis1 = axis\<lparr>ax_type := PStr ''log''\<rparr>;
          minval = minallowed (ax_autorangeoptions axis1);
          maxval = maxallowed (ax_autorangeoptions axis1)
      in case log10_or_none minval of
           Inl e \<Rightarrow> (axis1, Some e)
         | Inr minval' \<Rightarrow>
             (case log10_or_none maxval of
                Inl e \<Rightarrow> (axis1, Some e)
              | Inr maxval' \<Rightarrow>
                  (axis1\<lparr>ax_autorangeoptions :=
                      (ax_autorangeoptions axis1)\<lparr>minallowed := minval', maxallowed := maxval'\<rparr>\<rparr>,
                   None)))"

section \<open>Creating a figure\<close>

text \<open>\<^verbatim>\<open>layout.update(**dataset.layout)\<close>: every leaf of the dataset's dictionaries is
  assigned to the property of the same path.\<close>

definition update_axis :: "go_axis \<Rightarrow> axis_dict \<Rightarrow> go_axis" where
  "update_axis ax d =
     ax\<lparr>ax_hoverformat := ad_hoverformat d,
        ax_ticksuffix := ad_ticksuffix d,
        ax_title_text := ad_title_text d,
        ax_rangemode := PStr (ad_rangemode d),
        ax_autorangeoptions :=
          (ax_autorangeoptions ax)\<lparr>clipmin := clipmin (ad_autorangeoptions d),
                                    clipmax := clipmax (ad_autorangeoptions d),
                                    minallowed := minallowed (ad_autorangeoptions d),
                                    maxallowed := maxallowed (ad_autorangeoptions d)\<rparr>\<rparr>"

definition update_layout :: "go_layout \<Rightarrow> layout_dict \<Rightarrow> go_layout" where
  "update_layout lay d =
     lay\<lparr>lo_title_text := ld_title_text d,
         lo_xaxis := update_axis (lo_xaxis lay) (ld_xaxis d),
         lo_yaxis := update_axis (lo_yaxis lay) (ld_yaxis d)\<rparr>"

definition FLAT_PLOT_WIDTH :: int where
  "FLAT_PLOT_WIDTH = 1100"

text \<open>\<^verbatim>\<open>xs[i]\<close> for an integer index: a negative index counts from the end.\<close>

definition py_index :: "'a list \<Rightarrow> int \<Rightarrow> error + 'a" where
  "py_index xs i =
     (let n = int (length xs); j = (if i < 0 then n + i else i)
      in if 0 \<le> j \<and> j < n then Inr (xs ! nat j) else Inl IndexError)"

text \<open>\<^verbatim>\<open>dataset.pct_range.get(axis, {})\<close>.\<close>

definition pct_range_get :: "dataset \<Rightarrow> string \<Rightarrow> pydict" where
  "pct_range_get ds axis = (case map_of (pct_range ds) axis of Some d \<Rightarrow> d | None \<Rightarrow> [])"

text \<open>
  One pass of the loop over \<^verbatim>\<open>self.axis_controlled_by_switches\<close> in \<^verbatim>\<open>Plot.get_figure\<close>,
  on the contents of the local layout object. It returns the contents after the pass
  and the exception, if one was raised: the writes made before the exception stay.
\<close>

definition get_figure_axis ::
  "plot \<Rightarrow> dataset \<Rightarrow> bool \<Rightarrow> bool \<Rightarrow> string \<Rightarrow> go_layout \<Rightarrow> go_layout \<times> error option" where
  "get_figure_axis self ds is_log is_pct axis lay =
     (case get_axis lay axis of
        Inl e \<Rightarrow> (lay, Some e)
      | Inr ax0 \<Rightarrow>
          (let ax1 = ax0\<lparr>ax_type := PStr ''linear''\<rparr>;
               minval0 = minallowed (ax_autorangeoptions ax1);
               maxval0 = maxallowed (ax_autorangeoptions ax1);
               ax2 = (if is_pct
                      then ax1\<lparr>ax_hoverformat := pau_hoverformat (pct_axis_update self),
                               ax_ticksuffix := pau_ticksuffix (pct_axis_update self)\<rparr>
                      else ax1);
               minval1 = (if is_pct then dict_get (pct_range_get ds axis) ''min'' (PInt 0)
                          else minval0);
               maxval1 = (if is_pct then dict_get (pct_range_get ds axis) ''max'' (PInt 100)
                          else maxval0)
           in if is_log
              then (let ax3 = ax2\<lparr>ax_type := PStr ''log''\<rparr>
                    in case log10_or_none minval1 of
                         Inl e \<Rightarrow> (set_axis lay axis ax3, Some e)
                       | Inr minval2 \<Rightarrow>
                           (case log10_or_none maxval1 of
                              Inl e \<Rightarrow> (set_axis lay axis ax3, Some e)
                            | Inr maxval2 \<Rightarrow>
                                (set_axis lay axis
                                   (ax3\<lparr>ax_autorangeoptions :=
                                      (ax_autorangeoptions ax3)\<lparr>minallowed := minval2,
                                                                 maxallowed := maxval2\<rparr>\<rparr>),
                                 None)))
              else (set_axis lay axis
                      (ax2\<lparr>ax_autorangeoptions :=
                         (ax_autorangeoptions ax2)\<lparr>minallowed := minval1,
                                                    maxallowed := maxval1\<rparr>\<rparr>),
                    None)))"

text \<open>The loop itself, writing into the layout object at address \<open>la\<close>.\<close>

fun get_figure_axes ::
  "state \<Rightarrow> plot \<Rightarrow> dataset \<Rightarrow> bool \<Rightarrow> bool \<Rightarrow> addr \<Rightarrow> string list \<Rightarrow> state \<times> error option" where
  "get_figure_axes s self ds is_log is_pct la [] = (s, None)"
| "get_figure_axes s self ds is_log is_pct la (axis # axes) =
     (case get_figure_axis self ds is_log is_pct axis (cells s la) of
        (lay, Some e) \<Rightarrow> (store s la lay, Some e)
      | (lay, None) \<Rightarrow> get_figure_axes (store s la lay) self ds is_log is_pct la axes)"

text \<open>
  Modelled from the spec: \<^verbatim>\<open>BaseDataset.create_figure\<close> is abstract in this module and the
  plot-type modules that override it are not part of the sources at hand; the spec
  treats rendering as an external capability \<^verbatim>\<open>render(layoutSpec, dataSeries)\<close>. A figure
  is represented by what the method is handed: the resolved layout and the two flags.
\<close>

record figure =
  fig_layout :: go_layout
  fig_is_log :: bool
  fig_is_pct :: bool

definition create_figure :: "dataset \<Rightarrow> go_layout \<Rightarrow> bool \<Rightarrow> bool \<Rightarrow> figure" where
  "create_figure ds lay is_log is_pct =
     \<lparr>fig_layout = lay, fig_is_log = is_log, fig_is_pct = is_pct\<rparr>"

text \<open>
  \<^verbatim>\<open>Plot.get_figure\<close>. The local layout is a new object holding a copy of the contents of
  \<^verbatim>\<open>self.layout\<close> (\<^verbatim>\<open>go.Layout(self.layout.to_plotly_json())\<close>); all later writes go to
  the new object.
\<close>

definition get_figure ::
  "state \<Rightarrow> plot \<Rightarrow> int \<Rightarrow> bool \<Rightarrow> bool \<Rightarrow> bool \<Rightarrow> state \<times> (error + figure)" where
  "get_figure s self dataset_id is_log is_pct flat_arg =
     (case py_index (datasets self) dataset_id of
        Inl e \<Rightarrow> (s, Inl e)
      | Inr ds \<Rightarrow>
          (let (s1, la) = new_Layout s (cells s (layout self));
               s2 = store s1 la (update_layout (cells s1 la) (ds_layout ds));
               s3 = (if flat_arg
                     then store s2 la ((cells s2 la)\<lparr>lo_width := PInt FLAT_PLOT_WIDTH\<rparr>)
                     else s2)
           in case get_figure_axes s3 self ds is_log is_pct la (axis_controlled_by_switches self) of
                (s4, Some e) \<Rightarrow> (s4, Inl e)
              | (s4, None) \<Rightarrow> (s4, Inr (create_figure ds (cells s4 la) is_log is_pct))))"

section \<open>String operations\<close>

text \<open>
  Strings are lists of 8-bit characters, so the model covers Python strings of code
  points below 256. \<^verbatim>\<open>str.strip\<close>, \<^verbatim>\<open>str.lower\<close>, \<^verbatim>\<open>in\<close>, \<^verbatim>\<open>str.startswith\<close>,
  \<^verbatim>\<open>str.endswith\<close>, \<^verbatim>\<open>str.split(sep)\<close> and \<^verbatim>\<open>str.replace(old, new)\<close>; the source calls
  the last two with non-empty literals only.
\<close>

definition is_space :: "char \<Rightarrow> bool" where
  "is_space c = (c \<in> {CHR '' '', CHR 0x09, CHR 0x0A, CHR 0x0B, CHR 0x0C, CHR 0x0D,
                       CHR 0x1C, CHR 0x1D, CHR 0x1E, CHR 0x1F, CHR 0x85, CHR 0xA0})"

definition py_strip :: "string \<Rightarrow> string" where
  "py_strip s = rev (dropWhile is_space (rev (dropWhile is_space s)))"

definition lower_char :: "char \<Rightarrow> char" where
  "lower_char c =
     (let n = (of_char c :: nat)
      in if (65 \<le> n \<and> n \<le> 90) \<or> (192 \<le> n \<and> n \<le> 222 \<and> n \<noteq> 215)
         then char_of (n + 32) else c)"

definition py_lower :: "string \<Rightarrow> string" where
  "py_lower s = map lower_char s"

fun py_in :: "string \<Rightarrow> string \<Rightarrow> bool" where
  "py_in t [] = (t = [])"
| "py_in t (c # cs) = (prefix t (c # cs) \<or> py_in t cs)"

definition py_startswith :: "string \<Rightarrow> string \<Rightarrow> bool" where
  "py_startswith s t = prefix t s"

definition py_endswith :: "string \<Rightarrow> string \<Rightarrow> bool" where
  "py_endswith s t = prefix (rev t) (rev s)"

fun py_split_acc :: "string \<Rightarrow> string \<Rightarrow> string \<Rightarrow> string list" where
  "py_split_acc sep acc [] = [rev acc]"
| "py_split_acc sep acc (c # cs) =
     (if sep \<noteq> [] \<and> prefix sep (c # cs)
      then rev acc # py_split_acc sep [] (drop (length sep) (c # cs))
      else py_split_acc sep (c # acc) cs)"

definition py_split :: "string \<Rightarrow> string \<Rightarrow> string list" where
  "py_split s sep = py_split_acc sep [] s"

fun py_replace :: "string \<Rightarrow> string \<Rightarrow> string \<Rightarrow> string" where
  "py_replace [] old new = []"
| "py_replace (c # cs) old new =
     (if old \<noteq> [] \<and> prefix old (c # cs)
      then new @ py_replace (drop (length old) (c # cs)) old new
      else c # py_replace cs old new)"

text \<open>\<^verbatim>\<open>str(n)\<close> for a natural number: its decimal digits.\<close>

definition digit_char :: "nat \<Rightarrow> char" where
  "digit_char d = ''0123456789'' ! d"

fun str_nat :: "nat \<Rightarrow> string" where
  "str_nat n = (if n < 10 then [digit_char n] else str_nat (n div 10) @ [digit_char (n mod 10)])"

section \<open>Dataset layout\<close>

text \<open>\<^verbatim>\<open>_clean_config_tt_label\<close>: the replacements in the order of the dictionary
  literal.\<close>

definition replace_d :: "(string \<times> string) list" where
  "replace_d =
     [(''{point.x'', ''%{x''),
      (''{point.y'', ''%{y''),
      (''x:>'', ''x:''),
      (''y:>'', ''y:''),
      (''{point.category}'', ''%{x}''),
      (''<strong>'', ''<b>''),
      (''</strong>'', ''</b>''),
      (''<br/>'', ''<br>'')]"

definition clean_config_tt_label :: "string \<Rightarrow> string" where
  "clean_config_tt_label tt_label = foldl (\<lambda>t (k, v). py_replace t k v) tt_label replace_d"

definition KNOWN_SUFFIXES :: "string list" where
  "KNOWN_SUFFIXES = [''%'', ''x'', ''X'', ''k'', ''M'', '' bp'', '' kbp'', '' Mbp'']"

text \<open>
  The block "Options deprecated in 1.21", written once for the y and once for the x
  axis in the source: \<^verbatim>\<open>if suffix is None and labformat: if "}" in labformat: suffix =
  labformat.split("}")[1]\<close>. On a value that is not a string, \<^verbatim>\<open>in\<close> is membership (list,
  dictionary) or a type error, and \<^verbatim>\<open>split\<close> is a missing attribute.
\<close>

definition suffix_from_labformat :: "pyval \<Rightarrow> pyval \<Rightarrow> error + pyval" where
  "suffix_from_labformat sfx labformat =
     (if sfx = PNone \<and> truthy labformat
      then (case labformat of
              PStr f \<Rightarrow>
                (if py_in ''}'' f
                 then (let parts = py_split f ''}''
                       in if 1 < length parts then Inr (PStr (parts ! 1)) else Inl IndexError)
                 else Inr sfx)
            | PList l \<Rightarrow> (if PStr ''}'' \<in> set l then Inl AttributeError else Inr sfx)
            | PDict d \<Rightarrow> (if dict_has d ''}'' then Inl AttributeError else Inr sfx)
            | _ \<Rightarrow> Inl TypeError)
      else Inr sfx)"

text \<open>The loop "Set or remove space in known suffixes", for one of the two suffixes:
  \<^verbatim>\<open>if suffix is not None and suffix == suf.strip(): suffix = suf\<close>.\<close>

definition known_suffix_step :: "pyval \<Rightarrow> string \<Rightarrow> pyval" where
  "known_suffix_step sfx suf =
     (if sfx \<noteq> PNone \<and> sfx = PStr (py_strip suf) then PStr suf else sfx)"

definition set_known_suffix :: "pyval \<Rightarrow> pyval" where
  "set_known_suffix sfx = foldl known_suffix_step sfx KNOWN_SUFFIXES"

text \<open>
  The block "Set % suffix from ylab", written once per axis:
  \<^verbatim>\<open>if suffix is None and lab: if "%" in lab or "percentage" in lab.lower(): suffix = "%"\<close>,
  then \<^verbatim>\<open>for suf in KNOWN_SUFFIXES: if lab.endswith(f" ({suf.strip()})"): suffix = suf\<close>.
  A label that is a list or a dictionary has no \<^verbatim>\<open>lower\<close> and no \<^verbatim>\<open>endswith\<close>; a number or
  \<^verbatim>\<open>True\<close> is not a container.
\<close>

definition suffix_from_lab :: "pyval \<Rightarrow> pyval \<Rightarrow> error + pyval" where
  "suffix_from_lab sfx lab =
     (if sfx = PNone \<and> truthy lab
      then (case lab of
              PStr l \<Rightarrow>
                (let suffix1 = (if py_in ''%'' l \<or> py_in ''percentage'' (py_lower l)
                                then PStr ''%'' else sfx)
                 in Inr (foldl (\<lambda>sx suf. if py_endswith l ('' ('' @ py_strip suf @ '')'')
                                           then PStr suf else sx)
                           suffix1 KNOWN_SUFFIXES))
            | PList l \<Rightarrow> Inl AttributeError
            | PDict d \<Rightarrow> Inl AttributeError
            | _ \<Rightarrow> Inl TypeError)
      else Inr sfx)"

text \<open>
  The suffix read from one part of the tooltip label:
  \<^verbatim>\<open>info = part.split("}")[1].replace("</b>", "")\<close>,
  \<^verbatim>\<open>info = info.split(":")[0].split(",")[0].strip().split(" ")[0]\<close>, then the first known
  suffix whose stripped form equals \<open>info\<close>, if \<open>info\<close> is not empty. The caller has
  checked \<^verbatim>\<open>"}" in part\<close>, so the first split has a second element; a split is never
  empty.
\<close>

definition tt_info :: "string \<Rightarrow> string" where
  "tt_info part =
     (let info = py_replace (py_split part ''}'' ! 1) ''</b>'' []
      in hd (py_split (py_strip (hd (py_split (hd (py_split info '':'')) '',''))) '' ''))"

definition tt_suffix :: "string \<Rightarrow> string option" where
  "tt_suffix part =
     (let info = tt_info part
      in if info \<noteq> [] then find (\<lambda>suf. info = py_strip suf) KNOWN_SUFFIXES else None)"

text \<open>One pass of \<^verbatim>\<open>for part in parts\<close> on the pair (ysuffix, xsuffix).\<close>

definition tt_part_step :: "pyval \<times> pyval \<Rightarrow> string \<Rightarrow> pyval \<times> pyval" where
  "tt_part_step sx part =
     (case sx of (ysuffix, xsuffix) \<Rightarrow>
        if ysuffix = PNone \<and> py_startswith part ''y'' \<and> py_in ''}'' part
        then (case tt_suffix part of Some suf \<Rightarrow> (PStr suf, xsuffix) | None \<Rightarrow> (ysuffix, xsuffix))
        else if xsuffix = PNone \<and> py_startswith part ''x'' \<and> py_in ''}'' part
        then (case tt_suffix part of Some suf \<Rightarrow> (ysuffix, PStr suf) | None \<Rightarrow> (ysuffix, xsuffix))
        else (ysuffix, xsuffix))"

text \<open>
  Removing the suffix from the label, for the placeholder \<open>ph\<close> (\<^verbatim>\<open>{y}\<close> or \<^verbatim>\<open>{x}\<close>):
  \<^verbatim>\<open>if suffix is not None: if ph + suffix in tt_label: ...; if ph + " " + suffix in
  tt_label: ...\<close>. Concatenating a string with a suffix that is not a string is a type
  error.
\<close>

definition strip_suffix_from_label :: "string \<Rightarrow> pyval \<Rightarrow> string \<Rightarrow> error + string" where
  "strip_suffix_from_label ph sfx tt_label =
     (case sfx of
        PNone \<Rightarrow> Inr tt_label
      | PStr sx \<Rightarrow>
          (let t1 = (if py_in (ph @ sx) tt_label then py_replace tt_label (ph @ sx) ph
                     else tt_label);
               t2 = (if py_in (ph @ '' '' @ sx) t1 then py_replace t1 (ph @ '' '' @ sx) ph
                     else t1)
           in Inr t2)
      | _ \<Rightarrow> Inl TypeError)"

text \<open>The branch \<^verbatim>\<open>if "tt_label" in pconfig\<close>: the cleaned label and the two suffixes.\<close>

definition tt_label_branch ::
  "pyval \<Rightarrow> pyval \<Rightarrow> pyval \<Rightarrow> error + (string \<times> pyval \<times> pyval)" where
  "tt_label_branch raw ysuffix xsuffix =
     (case raw of
        PStr raw_label \<Rightarrow>
          (let tt_label = clean_config_tt_label raw_label;
               (ysuffix1, xsuffix1) =
                  (if ysuffix = PNone \<or> xsuffix = PNone
                   then foldl tt_part_step (ysuffix, xsuffix) (py_split tt_label ''%{'')
                   else (ysuffix, xsuffix))
           in case strip_suffix_from_label ''{y}'' ysuffix1 tt_label of
                Inl e \<Rightarrow> Inl e
              | Inr t1 \<Rightarrow>
                  (case strip_suffix_from_label ''{x}'' xsuffix1 t1 of
                     Inl e \<Rightarrow> Inl e
                   | Inr t2 \<Rightarrow>
                       Inr (if \<not> py_startswith t2 ''<br>'' then ''<br>'' @ t2 else t2,
                            ysuffix1, xsuffix1)))
      | _ \<Rightarrow> Inl AttributeError)"

text \<open>\<^verbatim>\<open>v == 0\<close> and \<^verbatim>\<open>v or ""\<close>.\<close>

definition py_eq_zero :: "pyval \<Rightarrow> bool" where
  "py_eq_zero v = (v = PInt 0 \<or> v = PFloat 0 \<or> v = PBool False)"

definition or_empty :: "pyval \<Rightarrow> pyval" where
  "or_empty v = (if truthy v then v else PStr [])"

definition decimals_format :: "pyval \<Rightarrow> hoverformat" where
  "decimals_format decimals = (if decimals \<noteq> PNone then DecimalsFormat decimals else NoFormat)"

text \<open>
  The tooltip label and the suffixes after the block \<^verbatim>\<open>if "tt_label" in pconfig: ...
  else: tt_label = default_tt_label\<close>.
\<close>

definition resolve_tt_label ::
  "pydict \<Rightarrow> string option \<Rightarrow> pyval \<Rightarrow> pyval \<Rightarrow> error + (string option \<times> pyval \<times> pyval)" where
  "resolve_tt_label pconf default_tt_label ysuffix xsuffix =
     (if dict_has pconf ''tt_label''
      then (case tt_label_branch (dict_get pconf ''tt_label'' PNone) ysuffix xsuffix of
              Inl e \<Rightarrow> Inl e
            | Inr (t, ys, xs) \<Rightarrow> Inr (Some t, ys, xs))
      else Inr (default_tt_label, ysuffix, xsuffix))"

text \<open>The two suffixes before the tooltip label is looked at (the source up to the
  test for \<^verbatim>\<open>tt_label\<close>).\<close>

definition resolve_suffixes :: "pydict \<Rightarrow> error + (pyval \<times> pyval)" where
  "resolve_suffixes pconf =
     (let ysuffix0 = dict_get pconf ''ysuffix'' (dict_get pconf ''tt_suffix'' PNone);
          xsuffix0 = dict_get pconf ''xsuffix'' PNone;
          ylabformat = dict_get pconf ''ylab_format'' (dict_get pconf ''yLabFormat'' PNone)
      in case suffix_from_labformat ysuffix0 ylabformat of
           Inl e \<Rightarrow> Inl e
         | Inr ysuffix1 \<Rightarrow>
             (let xlabformat = dict_get pconf ''xlab_format'' (dict_get pconf ''xLabFormat'' PNone)
              in case suffix_from_labformat xsuffix0 xlabformat of
                   Inl e \<Rightarrow> Inl e
                 | Inr xsuffix1 \<Rightarrow>
                     (let ysuffix2 = set_known_suffix ysuffix1;
                          xsuffix2 = set_known_suffix xsuffix1;
                          ylab = dict_get pconf ''ylab'' PNone;
                          xlab = dict_get pconf ''xlab'' PNone
                      in case suffix_from_lab ysuffix2 ylab of
                           Inl e \<Rightarrow> Inl e
                         | Inr ysuffix3 \<Rightarrow>
                             (case suffix_from_lab xsuffix2 xlab of
                                Inl e \<Rightarrow> Inl e
                              | Inr xsuffix3 \<Rightarrow> Inr (ysuffix3, xsuffix3)))))"

text \<open>The dictionary \<^verbatim>\<open>layout\<close> and the dictionary \<^verbatim>\<open>trace_params\<close> built at the end.\<close>

definition build_layout :: "pydict \<Rightarrow> pyval \<Rightarrow> pyval \<Rightarrow> layout_dict" where
  "build_layout pconf ysuffix xsuffix =
     (let y_decimals = dict_get pconf ''tt_decimals''
                         (dict_get pconf ''y_decimals'' (dict_get pconf ''decimalPlaces'' PNone));
          y_hoverformat = decimals_format y_decimals;
          x_decimals = dict_get pconf ''x_decimals'' PNone;
          x_hoverformat = decimals_format x_decimals
      in \<lparr>ld_title_text = dict_get pconf ''title'' PNone,
          ld_xaxis =
            \<lparr>ad_hoverformat = x_hoverformat,
             ad_ticksuffix = or_empty xsuffix,
             ad_title_text = dict_get pconf ''xlab'' PNone,
             ad_rangemode = (if py_eq_zero (dict_get pconf ''xmin'' PNone)
                             then ''tozero'' else ''normal''),
             ad_autorangeoptions =
               \<lparr>clipmin = dict_get pconf ''x_clipmin'' (dict_get pconf ''xFloor'' PNone),
                clipmax = dict_get pconf ''x_clipmax'' (dict_get pconf ''xCeiling'' PNone),
                minallowed = dict_get pconf ''xmin'' PNone,
                maxallowed = dict_get pconf ''xmax'' PNone\<rparr>\<rparr>,
          ld_yaxis =
            \<lparr>ad_hoverformat = y_hoverformat,
             ad_ticksuffix = or_empty ysuffix,
             ad_title_text = dict_get pconf ''ylab'' PNone,
             ad_rangemode = (if py_eq_zero (dict_get pconf ''ymin'' PNone) \<and> (0::int) = 0
                             then ''tozero'' else ''normal''),
             ad_autorangeoptions =
               \<lparr>clipmin = dict_get pconf ''y_clipmin'' (dict_get pconf ''yFloor'' PNone),
                clipmax = dict_get pconf ''y_clipmax'' (dict_get pconf ''yCeiling'' PNone),
                minallowed = dict_get pconf ''ymin'' PNone,
                maxallowed = dict_get pconf ''ymax'' PNone\<rparr>\<rparr>\<rparr>)"

definition build_trace_params :: "string option \<Rightarrow> pydict" where
  "build_trace_params tt_label =
     (let hovertemplate =
            (case tt_label of
               Some t \<Rightarrow> (if t \<noteq> [] then Some (''<b>%{text}</b>'' @ t @ ''<extra></extra>'')
                          else None)
             | None \<Rightarrow> None)
      in case hovertemplate of
           Some h \<Rightarrow> [(''hovertemplate'', PStr h)]
         | None \<Rightarrow> [])"

text \<open>\<^verbatim>\<open>_dataset_layout(pconfig, dconfig, default_tt_label)\<close>, the blocks above in the
  order of the source.\<close>

definition dataset_layout ::
  "pydict \<Rightarrow> pydict \<Rightarrow> string option \<Rightarrow> error + (layout_dict \<times> pydict)" where
  "dataset_layout pconf0 dconf default_tt_label =
     (let pconf = dict_update pconf0 dconf
      in case resolve_suffixes pconf of
           Inl e \<Rightarrow> Inl e
         | Inr (ysuffix3, xsuffix3) \<Rightarrow>
             (case resolve_tt_label pconf default_tt_label ysuffix3 xsuffix3 of
                Inl e \<Rightarrow> Inl e
              | Inr (tt_label, ysuffix, xsuffix) \<Rightarrow>
                  Inr (build_layout pconf ysuffix xsuffix, build_trace_params tt_label)))"

section \<open>Plot initialisation\<close>

text \<open>
  The settings read from \<^verbatim>\<open>multiqc.config\<close>, a module outside the sources at hand:
  they are parameters of the model.
\<close>

record config =
  strict :: bool
  plots_force_flat :: bool
  plots_force_interactive :: bool
  plots_flat_numseries :: int
  export_plots :: bool
  development :: bool
  plots_dir_name :: string

text \<open>\<^verbatim>\<open>a and b\<close>, \<^verbatim>\<open>a or b\<close>: the value of the operand that decides.\<close>

definition py_and :: "pyval \<Rightarrow> pyval \<Rightarrow> pyval" where
  "py_and a b = (if truthy a then b else a)"

definition py_or :: "pyval \<Rightarrow> pyval \<Rightarrow> pyval" where
  "py_or a b = (if truthy a then a else b)"

text \<open>
  The fields of \<^verbatim>\<open>Plot\<close> and \<^verbatim>\<open>BaseDataset\<close> are validated when the object is
  constructed. A \<^verbatim>\<open>str\<close> field takes a string only; a \<^verbatim>\<open>bool\<close> field takes a bool, the
  numbers 0 and 1 and the usual spellings of true and false.
\<close>

definition validate_str :: "pyval \<Rightarrow> error + string" where
  "validate_str v = (case v of PStr x \<Rightarrow> Inr x | _ \<Rightarrow> Inl ValidationError)"

definition validate_bool :: "pyval \<Rightarrow> error + bool" where
  "validate_bool v =
     (case v of
        PBool b \<Rightarrow> Inr b
      | PInt i \<Rightarrow> (if i = 0 then Inr False else if i = 1 then Inr True else Inl ValidationError)
      | PFloat r \<Rightarrow> (if r = 0 then Inr False else if r = 1 then Inr True else Inl ValidationError)
      | PStr x \<Rightarrow>
          (if py_lower x \<in> set [''0'', ''off'', ''f'', ''false'', ''n'', ''no''] then Inr False
           else if py_lower x \<in> set [''1'', ''on'', ''t'', ''true'', ''y'', ''yes''] then Inr True
           else Inl ValidationError)
      | _ \<Rightarrow> Inl ValidationError)"

text \<open>\<^verbatim>\<open>len(v)\<close> and \<^verbatim>\<open>v[idx]\<close> for a non-negative index, on the value found under
  \<^verbatim>\<open>data_labels\<close>. The keys of a dictionary are strings, so an integer key is missing.\<close>

definition py_len :: "pyval \<Rightarrow> error + nat" where
  "py_len v =
     (case v of
        PList l \<Rightarrow> Inr (length l)
      | PStr x \<Rightarrow> Inr (length x)
      | PDict d \<Rightarrow> Inr (length (remdups (map fst d)))
      | _ \<Rightarrow> Inl TypeError)"

definition py_getitem :: "pyval \<Rightarrow> nat \<Rightarrow> error + pyval" where
  "py_getitem v idx =
     (case v of
        PList l \<Rightarrow> (if idx < length l then Inr (l ! idx) else Inl IndexError)
      | PStr x \<Rightarrow> (if idx < length x then Inr (PStr [x ! idx]) else Inl IndexError)
      | PDict d \<Rightarrow> Inl (KeyError (str_nat idx))
      | _ \<Rightarrow> Inl TypeError)"

definition is_str_or_dict :: "pyval \<Rightarrow> bool" where
  "is_str_or_dict v = (case v of PStr x \<Rightarrow> True | PDict d \<Rightarrow> True | _ \<Rightarrow> False)"

text \<open>The block "Counts / Percentages / Log10 switch": the values of \<^verbatim>\<open>add_log_tab\<close>,
  \<^verbatim>\<open>add_pct_tab\<close>, \<^verbatim>\<open>l_active\<close> and \<^verbatim>\<open>p_active\<close>.\<close>

definition switch_flags :: "PlotType \<Rightarrow> pydict \<Rightarrow> pyval \<times> bool \<times> pyval \<times> bool" where
  "switch_flags ptype pconf =
     (let add_log_tab_v = py_and (dict_get pconf ''logswitch'' (PBool False))
                                 (PBool (ptype \<in> set [BAR, LINE]));
          add_pct_tab_v = (dict_get pconf ''cpswitch'' (PBool True) \<noteq> PBool False \<and> ptype = BAR);
          l_active_v = py_and add_log_tab_v
                              (PBool (dict_get pconf ''logswitch_active'' PNone = PBool True));
          p_active_v = (add_pct_tab_v \<and> dict_get pconf ''cpswitch_c_active'' (PBool True) \<noteq> PBool True)
      in (add_log_tab_v, add_pct_tab_v, l_active_v, p_active_v))"

text \<open>The contents of the layout object constructed by \<^verbatim>\<open>go.Layout(...)\<close>.\<close>

definition new_axis :: go_axis where
  "new_axis =
     \<lparr>ax_type = PNone, ax_hoverformat = NoFormat, ax_ticksuffix = PNone,
      ax_title_text = PNone, ax_rangemode = PNone,
      ax_autorangeoptions =
        \<lparr>clipmin = PNone, clipmax = PNone, minallowed = PNone, maxallowed = PNone\<rparr>\<rparr>"

definition base_layout :: "pydict \<Rightarrow> bool \<Rightarrow> go_layout" where
  "base_layout pconf flat_v =
     (let height = dict_get pconf ''height'' (PInt 500);
          width0 = dict_get pconf ''width'' PNone;
          width = (if truthy (dict_get pconf ''square'' PNone) then height else width0);
          title = dict_get pconf ''table_title'' (dict_get pconf ''title'' PNone)
      in \<lparr>lo_title_text = title, lo_xaxis = new_axis, lo_yaxis = new_axis,
          lo_height = height, lo_width = width, lo_showlegend = flat_v\<rparr>)"

text \<open>
  \<^verbatim>\<open>if pconfig.get("xlog", ...): _set_axis_log_scale(layout.xaxis)\<close>, then the axis is
  removed from the list of controlled axes if it is there; the same block exists for
  the y axis.
\<close>

definition static_log_axis ::
  "state \<Rightarrow> addr \<Rightarrow> string \<Rightarrow> string list \<Rightarrow> state \<times> (error + string list)" where
  "static_log_axis s la axis axes =
     (case get_axis (cells s la) axis of
        Inl e \<Rightarrow> (s, Inl e)
      | Inr ax \<Rightarrow>
          (case set_axis_log_scale ax of
             (ax', Some e) \<Rightarrow> (store s la (set_axis (cells s la) axis ax'), Inl e)
           | (ax', None) \<Rightarrow> (store s la (set_axis (cells s la) axis ax'), Inr (remove1 axis axes))))"

text \<open>\<^verbatim>\<open>for axis in axis_controlled_by_switches: layout[axis].type = "log"\<close>.\<close>

fun set_log_types :: "state \<Rightarrow> addr \<Rightarrow> string list \<Rightarrow> state \<times> error option" where
  "set_log_types s la [] = (s, None)"
| "set_log_types s la (axis # axes) =
     (case get_axis (cells s la) axis of
        Inl e \<Rightarrow> (s, Some e)
      | Inr ax \<Rightarrow>
          set_log_types (store s la (set_axis (cells s la) axis (ax\<lparr>ax_type := PStr ''log''\<rparr>)))
            la axes)"

text \<open>
  One pass of \<^verbatim>\<open>for idx in range(n_datasets)\<close>: the dataset for index \<open>idx\<close>. \<open>id_v\<close>
  is the resolved plot id and \<open>dconfigs\<close> the value of
  \<^verbatim>\<open>pconfig.get("data_labels") or []\<close>.
\<close>

definition initialize_dataset ::
  "state \<Rightarrow> pydict \<Rightarrow> pyval \<Rightarrow> int \<Rightarrow> pyval \<Rightarrow> string option \<Rightarrow> nat \<Rightarrow> state \<times> (error + dataset)" where
  "initialize_dataset s pconf dconfigs n_datasets id_v default_tt_label idx =
     (case validate_str id_v of
        Inl e \<Rightarrow> (s, Inl e)
      | Inr id_s \<Rightarrow>
          (let uid_v = (if n_datasets > 1 then id_s @ ''_'' @ str_nat (idx + 1) else id_s)
           in case py_len dconfigs of
                Inl e \<Rightarrow> (s, Inl e)
              | Inr len \<Rightarrow>
                  (case (if idx < len then py_getitem dconfigs idx else Inr (PDict [])) of
                     Inl e \<Rightarrow> (s, Inl e)
                   | Inr dconf0 \<Rightarrow>
                       (let s1 = (if \<not> is_str_or_dict dconf0
                                  then s\<lparr>logged := logged s @ [Warning_invalid_data_labels_type dconf0]\<rparr>
                                  else s);
                            dconf1 = (case dconf0 of PDict d \<Rightarrow> d | v \<Rightarrow> [(''name'', v)]);
                            label_v = dict_get dconf1 ''name''
                                        (dict_get dconf1 ''label'' (PStr (str_nat (idx + 1))));
                            dconf2 = (if \<not> dict_has dconf1 ''ylab'' \<and> \<not> dict_has pconf ''ylab''
                                      then dict_set dconf1 ''ylab''
                                             (dict_get dconf1 ''name'' (dict_get dconf1 ''label'' PNone))
                                      else dconf1)
                        in case dataset_layout pconf dconf2 default_tt_label of
                             Inl e \<Rightarrow> (s1, Inl e)
                           | Inr (lay, tparams) \<Rightarrow>
                               (s1, Inr \<lparr>plot_id = id_s, label = label_v, uid = uid_v,
                                        dconfig = dconf2, ds_layout = lay, trace_params = tparams,
                                        pct_range =
                                          [(''xaxis'', [(''min'', PInt 0), (''max'', PInt 100)]),
                                           (''yaxis'', [(''min'', PInt 0), (''max'', PInt 100)])]\<rparr>)))))"

fun initialize_datasets ::
  "state \<Rightarrow> pydict \<Rightarrow> pyval \<Rightarrow> int \<Rightarrow> pyval \<Rightarrow> string option \<Rightarrow> nat list
     \<Rightarrow> state \<times> (error + dataset list)" where
  "initialize_datasets s pconf dconfigs n_datasets id_v default_tt_label [] = (s, Inr [])"
| "initialize_datasets s pconf dconfigs n_datasets id_v default_tt_label (idx # idxs) =
     (case initialize_dataset s pconf dconfigs n_datasets id_v default_tt_label idx of
        (s1, Inl e) \<Rightarrow> (s1, Inl e)
      | (s1, Inr d) \<Rightarrow>
          (case initialize_datasets s1 pconf dconfigs n_datasets id_v default_tt_label idxs of
             (s2, Inl e) \<Rightarrow> (s2, Inl e)
           | (s2, Inr ds) \<Rightarrow> (s2, Inr (d # ds))))"

text \<open>
  A dictionary entry of \<^verbatim>\<open>data_labels\<close> is the very object that becomes
  \<^verbatim>\<open>dataset.dconfig\<close>, so the key \<^verbatim>\<open>ylab\<close> added to it is visible through \<^verbatim>\<open>pconfig\<close>
  afterwards. This is the configuration as the plot holds it once the loop is over.
\<close>

definition pconfig_after :: "pydict \<Rightarrow> dataset list \<Rightarrow> pydict" where
  "pconfig_after pconf dsets =
     (case dict_get pconf ''data_labels'' PNone of
        PList l \<Rightarrow>
          dict_set pconf ''data_labels''
            (PList (map (\<lambda>(i, v). case v of
                                    PDict d \<Rightarrow> (if i < length dsets then PDict (dconfig (dsets ! i)) else v)
                                  | _ \<Rightarrow> v)
                      (enumerate 0 l)))
      | _ \<Rightarrow> pconf)"

text \<open>The call \<^verbatim>\<open>Plot(...)\<close> at the end, with the validation of its fields.\<close>

definition make_plot ::
  "PlotType \<Rightarrow> pydict \<Rightarrow> pyval \<Rightarrow> dataset list \<Rightarrow> addr \<Rightarrow> pyval \<times> bool \<times> pyval \<times> bool
     \<Rightarrow> string list \<Rightarrow> bool \<Rightarrow> error + plot" where
  "make_plot ptype pconf id_v dsets la flags axes flat_v =
     (case flags of (add_log_tab_v, add_pct_tab_v, l_active_v, p_active_v) \<Rightarrow>
        (case validate_str id_v of
           Inl e \<Rightarrow> Inl e
         | Inr id_s \<Rightarrow>
        (case validate_bool add_log_tab_v of
           Inl e \<Rightarrow> Inl e
         | Inr add_log_tab_b \<Rightarrow>
        (case validate_bool l_active_v of
           Inl e \<Rightarrow> Inl e
         | Inr l_active_b \<Rightarrow>
        (case validate_bool (dict_get pconf ''square'' (PBool False)) of
           Inl e \<Rightarrow> Inl e
         | Inr square_b \<Rightarrow>
             Inr \<lparr>p_id = id_s, plot_type = ptype, layout = la, datasets = dsets,
                  pconfig = pconfig_after pconf dsets,
                  add_log_tab = add_log_tab_b, add_pct_tab = add_pct_tab_v,
                  l_active = l_active_b, p_active = p_active_v,
                  pct_axis_update =
                    \<lparr>pau_ticksuffix = PStr ''%'', pau_hoverformat = Format ''.1f''\<rparr>,
                  axis_controlled_by_switches = axes, square = square_b, flat = flat_v\<rparr>)))))"

text \<open>
  The plot id: \<^verbatim>\<open>id = id or pconfig.get("id")\<close>, and a random id if that is \<^verbatim>\<open>None\<close>.
  \<open>uniq_suffix\<close> stands for the ten letters that \<^verbatim>\<open>random.sample\<close> draws.
\<close>

definition resolve_id :: "string option \<Rightarrow> pydict \<Rightarrow> string \<Rightarrow> pyval" where
  "resolve_id id_arg pconf uniq_suffix =
     (let id0 = py_or (case id_arg of Some i \<Rightarrow> PStr i | None \<Rightarrow> PNone)
                      (dict_get pconf ''id'' PNone)
      in if id0 = PNone then PStr (''mqc_plot_'' @ uniq_suffix) else id0)"

text \<open>
  \<^verbatim>\<open>Plot.initialize\<close>. The steps that follow the construction of the layout object
  are in \<open>initialize_from_layout\<close>.
\<close>

definition initialize_from_layout ::
  "state \<Rightarrow> PlotType \<Rightarrow> pydict \<Rightarrow> int \<Rightarrow> pyval \<Rightarrow> string list \<Rightarrow> string option
     \<Rightarrow> pyval \<times> bool \<times> pyval \<times> bool \<Rightarrow> bool \<Rightarrow> addr \<Rightarrow> state \<times> (error + plot)" where
  "initialize_from_layout s ptype pconf n_datasets id_v axes0 default_tt_label flags flat_v la =
     (case (if truthy (dict_get pconf ''xlog'' (dict_get pconf ''xLog'' PNone))
            then static_log_axis s la ''xaxis'' axes0 else (s, Inr axes0)) of
        (s1, Inl e) \<Rightarrow> (s1, Inl e)
      | (s1, Inr axes1) \<Rightarrow>
     (case (if truthy (dict_get pconf ''ylog'' (dict_get pconf ''yLog'' PNone))
            then static_log_axis s1 la ''yaxis'' axes1 else (s1, Inr axes1)) of
        (s2, Inl e) \<Rightarrow> (s2, Inl e)
      | (s2, Inr axes2) \<Rightarrow>
     (case (if truthy (fst flags) \<and> truthy (fst (snd (snd flags)))
            then set_log_types s2 la axes2 else (s2, None)) of
        (s3, Some e) \<Rightarrow> (s3, Inl e)
      | (s3, None) \<Rightarrow>
          (let dconfigs = py_or (dict_get pconf ''data_labels'' PNone) (PList [])
           in case initialize_datasets s3 pconf dconfigs n_datasets id_v default_tt_label
                     [0 ..< nat n_datasets] of
                (s4, Inl e) \<Rightarrow> (s4, Inl e)
              | (s4, Inr dsets) \<Rightarrow>
                  (s4, make_plot ptype pconf id_v dsets la flags axes2 flat_v)))))"

definition initialize ::
  "state \<Rightarrow> config \<Rightarrow> PlotType \<Rightarrow> pydict \<Rightarrow> int \<Rightarrow> string option \<Rightarrow> string list option
     \<Rightarrow> string option \<Rightarrow> string \<Rightarrow> state \<times> (error + plot)" where
  "initialize s cfg ptype pconf n_datasets id_arg axes_arg default_tt_label uniq_suffix =
     (if n_datasets = 0 then (s, Inl (ValueError ''No datasets to plot''))
      else
        (let id_v = resolve_id id_arg pconf uniq_suffix;
             flags = switch_flags ptype pconf;
             title = dict_get pconf ''table_title'' (dict_get pconf ''title'' PNone);
             s1 = (if \<not> truthy title \<and> strict cfg
                   then s\<lparr>logged := logged s @ [Error_title_missing id_v],
                          lint_errors := lint_errors s @ [Error_title_missing id_v]\<rparr>
                   else s);
             flat_v = (plots_force_flat cfg
                       \<or> (\<not> plots_force_interactive cfg \<and> n_datasets > plots_flat_numseries cfg));
             (s2, la) = new_Layout s1 (base_layout pconf flat_v);
             axes0 = (case axes_arg of Some l \<Rightarrow> l | None \<Rightarrow> [])
         in initialize_from_layout s2 ptype pconf n_datasets id_v axes0 default_tt_label
              flags flat_v la))"

section \<open>Static images\<close>

text \<open>
  \<^verbatim>\<open>fig_to_static_html\<close> returns the HTML of one image: a \<^verbatim>\<open>div\<close> with an id, visible or
  hidden, around an \<^verbatim>\<open>img\<close> whose source is a file path or an embedded data URI. The
  result is modelled by these parts. The id is the file name, or a random one
  (\<^verbatim>\<open>plot-\<close> and seven digits) when the file name is missing or empty. Rendering the
  pixels, writing the exported files and adding the logo belong to the plotting and
  imaging libraries and are not modelled.
\<close>

datatype html_id = Named string | Random_plot_id

datatype img_src = File_path string | Data_uri

record static_image =
  div_id :: html_id
  hidden :: bool
  src :: img_src
  img_height :: pyval
  img_width :: pyval

definition fig_to_static_html ::
  "config \<Rightarrow> figure \<Rightarrow> bool \<Rightarrow> bool \<Rightarrow> bool \<Rightarrow> string option \<Rightarrow> error + static_image" where
  "fig_to_static_html cfg fig active export_arg embed_arg file_name =
     (if \<not> truthy (lo_width (fig_layout fig)) then Inl AssertionError
      else if export_arg \<and> file_name = None
      then Inl (ValueError ''file_name is required for export_plots'')
      else
        (case (if \<not> embed_arg
               then (case file_name of
                       None \<Rightarrow> Inl (ValueError ''file_name is required for non-embedded plots'')
                     | Some f \<Rightarrow> Inr (File_path (plots_dir_name cfg @ ''/png/'' @ f @ ''.png'')))
               else Inr Data_uri) of
           Inl e \<Rightarrow> Inl e
         | Inr img \<Rightarrow>
             Inr \<lparr>div_id = (case file_name of
                              Some f \<Rightarrow> (if f \<noteq> [] then Named f else Random_plot_id)
                            | None \<Rightarrow> Random_plot_id),
                  hidden = (\<not> active),
                  src = img,
                  img_height = lo_height (fig_layout fig),
                  img_width = lo_width (fig_layout fig)\<rparr>))"

text \<open>
  One call \<^verbatim>\<open>fig_to_static_html(self.get_figure(ds_idx, ..., flat=True), active=...,
  file_name=...)\<close> of \<^verbatim>\<open>Plot.flat_plot\<close>; the two other arguments take their defaults,
  \<^verbatim>\<open>config.export_plots\<close> and \<^verbatim>\<open>not config.development\<close>.
\<close>

definition static_view ::
  "state \<Rightarrow> config \<Rightarrow> plot \<Rightarrow> nat \<Rightarrow> bool \<Rightarrow> bool \<Rightarrow> bool \<Rightarrow> string
     \<Rightarrow> state \<times> (error + static_image)" where
  "static_view s cfg self ds_idx is_log is_pct active file_name =
     (case get_figure s self (int ds_idx) is_log is_pct True of
        (s1, Inl e) \<Rightarrow> (s1, Inl e)
      | (s1, Inr fig) \<Rightarrow>
          (s1, fig_to_static_html cfg fig active (export_plots cfg) (\<not> development cfg)
                 (Some file_name)))"

text \<open>The images of one dataset, in the order the loop body of \<^verbatim>\<open>Plot.flat_plot\<close>
  appends them.\<close>

definition flat_plot_dataset ::
  "state \<Rightarrow> config \<Rightarrow> plot \<Rightarrow> nat \<Rightarrow> dataset \<Rightarrow> state \<times> (error + static_image list)" where
  "flat_plot_dataset s cfg self ds_idx ds =
     (case static_view s cfg self ds_idx False False
             (ds_idx = 0 \<and> \<not> p_active self \<and> \<not> l_active self)
             (if \<not> add_log_tab self \<and> \<not> add_pct_tab self then uid ds else uid ds @ ''-cnt'') of
        (s1, Inl e) \<Rightarrow> (s1, Inl e)
      | (s1, Inr img_cnt) \<Rightarrow>
     (case (if add_pct_tab self
            then (case static_view s1 cfg self ds_idx False True
                         (ds_idx = 0 \<and> p_active self) (uid ds @ ''-pct'') of
                    (s2, Inl e) \<Rightarrow> (s2, Inl e)
                  | (s2, Inr img) \<Rightarrow> (s2, Inr [img]))
            else (s1, Inr [])) of
        (s2, Inl e) \<Rightarrow> (s2, Inl e)
      | (s2, Inr imgs_pct) \<Rightarrow>
     (case (if add_log_tab self
            then (case static_view s2 cfg self ds_idx True False
                         (ds_idx = 0 \<and> l_active self) (uid ds @ ''-log'') of
                    (s3, Inl e) \<Rightarrow> (s3, Inl e)
                  | (s3, Inr img) \<Rightarrow> (s3, Inr [img]))
            else (s2, Inr [])) of
        (s3, Inl e) \<Rightarrow> (s3, Inl e)
      | (s3, Inr imgs_log) \<Rightarrow>
     (case (if add_pct_tab self \<and> add_log_tab self
            then (case static_view s3 cfg self ds_idx True True
                         (ds_idx = 0 \<and> p_active self \<and> l_active self) (uid ds @ ''-pct-log'') of
                    (s4, Inl e) \<Rightarrow> (s4, Inl e)
                  | (s4, Inr img) \<Rightarrow> (s4, Inr [img]))
            else (s3, Inr [])) of
        (s4, Inl e) \<Rightarrow> (s4, Inl e)
      | (s4, Inr imgs_pct_log) \<Rightarrow>
          (s4, Inr ([img_cnt] @ imgs_pct @ imgs_log @ imgs_pct_log))))))"

text \<open>
  \<^verbatim>\<open>Plot.flat_plot\<close>: the loop over \<^verbatim>\<open>enumerate(self.datasets)\<close>. The result is the
  list of the images in the order of the HTML; the fixed text around them and the
  control panel are left out.
\<close>

fun flat_plot_loop ::
  "state \<Rightarrow> config \<Rightarrow> plot \<Rightarrow> (nat \<times> dataset) list \<Rightarrow> state \<times> (error + static_image list)" where
  "flat_plot_loop s cfg self [] = (s, Inr [])"
| "flat_plot_loop s cfg self ((ds_idx, ds) # rest) =
     (case flat_plot_dataset s cfg self ds_idx ds of
        (s1, Inl e) \<Rightarrow> (s1, Inl e)
      | (s1, Inr imgs) \<Rightarrow>
          (case flat_plot_loop s1 cfg self rest of
             (s2, Inl e) \<Rightarrow> (s2, Inl e)
           | (s2, Inr imgs_rest) \<Rightarrow> (s2, Inr (imgs @ imgs_rest))))"

definition flat_plot :: "state \<Rightarrow> config \<Rightarrow> plot \<Rightarrow> state \<times> (error + static_image list)" where
  "flat_plot s cfg self = flat_plot_loop s cfg self (enumerate 0 (datasets self))"

section \<open>Example inputs\<close>

text \<open>Concrete inputs on which the theorems below are evaluated.\<close>

definition example_state :: state where
  "example_state =
     \<lparr>cells = (\<lambda>a. base_layout [] False), fresh = 1, logged = [], lint_errors = []\<rparr>"

definition example_config :: config where
  "example_config =
     \<lparr>strict = False, plots_force_flat = False, plots_force_interactive = False,
      plots_flat_numseries = 100, export_plots = False, development = False,
      plots_dir_name = ''multiqc_plots''\<rparr>"

definition example_dataset :: dataset where
  "example_dataset =
     \<lparr>plot_id = ''p'', label = PStr ''1'', uid = ''p'', dconfig = [],
      ds_layout = build_layout [(''ymin'', PInt 5), (''ymax'', PInt 50)] PNone PNone,
      trace_params = [],
      pct_range = [(''xaxis'', [(''min'', PInt 0), (''max'', PInt 100)]),
                   (''yaxis'', [(''min'', PInt 0), (''max'', PInt 100)])]\<rparr>"

definition example_plot :: plot where
  "example_plot =
     \<lparr>p_id = ''p'', plot_type = BAR, layout = 0, datasets = [example_dataset],
      pconfig = [(''ymin'', PInt 5), (''ymax'', PInt 50)],
      add_log_tab = False, add_pct_tab = True, l_active = False, p_active = False,
      pct_axis_update = \<lparr>pau_ticksuffix = PStr ''%'', pau_hoverformat = Format ''.1f''\<rparr>,
      axis_controlled_by_switches = [''yaxis''], square = False, flat = True\<rparr>"

section \<open>Notions of the specification\<close>

text \<open>
  An axis bound is unset or a number; a bool counts as the number 0 or 1. \<open>log_image\<close>
  is the image of a bound under the logarithmic view in the words of the specification:
  a bound that is unset or not positive becomes unset, a positive bound becomes its
  base-10 logarithm. \<open>current_min\<close> and \<open>current_max\<close> are the bounds that are
  current when the logarithm is taken: those of the percentage range in the percentage
  view, the configured ones otherwise.
\<close>

fun bound_value :: "pyval \<Rightarrow> real option" where
  "bound_value (PBool b) = Some (if b then 1 else 0)"
| "bound_value (PInt i) = Some (real_of_int i)"
| "bound_value (PFloat r) = Some r"
| "bound_value v = None"

definition is_bound :: "pyval \<Rightarrow> bool" where
  "is_bound v = (v = PNone \<or> bound_value v \<noteq> None)"

definition log_image :: "pyval \<Rightarrow> pyval" where
  "log_image v =
     (case bound_value v of
        None \<Rightarrow> PNone
      | Some r \<Rightarrow> if r \<le> 0 then PNone else PFloat (log 10 r))"

definition current_min :: "dataset \<Rightarrow> bool \<Rightarrow> string \<Rightarrow> go_axis \<Rightarrow> pyval" where
  "current_min ds is_pct axis ax =
     (if is_pct then dict_get (pct_range_get ds axis) ''min'' (PInt 0)
      else minallowed (ax_autorangeoptions ax))"

definition current_max :: "dataset \<Rightarrow> bool \<Rightarrow> string \<Rightarrow> go_axis \<Rightarrow> pyval" where
  "current_max ds is_pct axis ax =
     (if is_pct then dict_get (pct_range_get ds axis) ''max'' (PInt 100)
      else maxallowed (ax_autorangeoptions ax))"

text \<open>
  The loop of \<^verbatim>\<open>Plot.get_figure\<close> as a function of the contents of the local layout
  alone, the contents of the local layout before the loop, and the pair of allowed
  bounds of an axis. They serve to state what a figure holds.
\<close>

fun resolve_axes ::
  "plot \<Rightarrow> dataset \<Rightarrow> bool \<Rightarrow> bool \<Rightarrow> string list \<Rightarrow> go_layout \<Rightarrow> go_layout \<times> error option" where
  "resolve_axes self ds is_log is_pct [] lay = (lay, None)"
| "resolve_axes self ds is_log is_pct (axis # axes) lay =
     (case get_figure_axis self ds is_log is_pct axis lay of
        (lay', Some e) \<Rightarrow> (lay', Some e)
      | (lay', None) \<Rightarrow> resolve_axes self ds is_log is_pct axes lay')"

definition local_layout :: "state \<Rightarrow> plot \<Rightarrow> dataset \<Rightarrow> bool \<Rightarrow> go_layout" where
  "local_layout s self ds flat_arg =
     (let lay = update_layout (cells s (layout self)) (ds_layout ds)
      in if flat_arg then lay\<lparr>lo_width := PInt FLAT_PLOT_WIDTH\<rparr> else lay)"

definition bounds :: "go_layout \<Rightarrow> string \<Rightarrow> error + (pyval \<times> pyval)" where
  "bounds lay axis =
     (case get_axis lay axis of
        Inl e \<Rightarrow> Inl e
      | Inr ax \<Rightarrow> Inr (minallowed (ax_autorangeoptions ax), maxallowed (ax_autorangeoptions ax)))"

text \<open>The exceptions of class \<^verbatim>\<open>ValueError\<close>.\<close>

definition is_value_error :: "error \<Rightarrow> bool" where
  "is_value_error e = (case e of ValueError m \<Rightarrow> True | _ \<Rightarrow> False)"

section \<open>Theorems\<close>

lemma dict_has_simps [simp]:
  "dict_has [] k = False"
  "dict_has ((k', v) # d) k = (k' = k \<or> dict_has d k)"
  by (auto simp: dict_has_def)

text \<open>
  Claim C3. The claim says that renaming the deprecated keys succeeds for every
  configuration. A configuration that carries the legacy key \<^verbatim>\<open>yCeiling\<close> and no key
  \<^verbatim>\<open>y_ceiling\<close> makes the function raise \<^verbatim>\<open>KeyError\<close>: the guard and the pop name two
  different keys.
\<close>

theorem rename_yCeiling_raises:
  "rename_deprecated_highcharts_keys [(''yCeiling'', PInt 100)] = Inl (KeyError ''y_ceiling'')"
  by (simp add: rename_deprecated_highcharts_keys_def dict_pop_def)

declare str_nat.simps [simp del]

subsection \<open>Logarithmic view\<close>

lemma log10_or_none_image:
  "is_bound v \<Longrightarrow> log10_or_none v = Inr (log_image v)"
  by (cases v) (auto simp: is_bound_def log_image_def)

lemma is_bound_log_image: "is_bound (log_image v)"
  by (cases v) (auto simp: is_bound_def log_image_def)

lemma get_set_axis:
  "get_axis lay axis = Inr ax \<Longrightarrow> get_axis (set_axis lay axis ax') axis = Inr ax'"
  by (auto simp: get_axis_def set_axis_def split: if_splits)

lemma log10_100: "log 10 (100::real) = 2"
proof -
  have "log 10 ((10::real) ^ 2) = real 2"
    by (rule log_pow_cancel) simp_all
  then show ?thesis by simp
qed

text \<open>
  Claim C2. With \<open>is_log\<close> set, one pass of the loop of \<^verbatim>\<open>Plot.get_figure\<close> over a
  controlled axis raises nothing, sets the axis type to \<^verbatim>\<open>log\<close> and replaces each
  current bound by its logarithmic image: unset for a bound that is unset or not
  positive, the base-10 logarithm for a positive bound. \<^verbatim>\<open>_set_axis_log_scale\<close> does the
  same to the configured bounds of the axis it is given. The bounds are unset or
  numbers.
\<close>

theorem log_resolution:
  assumes "get_axis lay axis = Inr ax"
    and "is_bound (current_min ds is_pct axis ax)"
    and "is_bound (current_max ds is_pct axis ax)"
    and "is_bound (minallowed (ax_autorangeoptions ax))"
    and "is_bound (maxallowed (ax_autorangeoptions ax))"
  shows "(\<exists>lay' ax'. get_figure_axis self ds True is_pct axis lay = (lay', None)
           \<and> get_axis lay' axis = Inr ax'
           \<and> ax_type ax' = PStr ''log''
           \<and> minallowed (ax_autorangeoptions ax') = log_image (current_min ds is_pct axis ax)
           \<and> maxallowed (ax_autorangeoptions ax') = log_image (current_max ds is_pct axis ax))
       \<and> (\<exists>ax'. set_axis_log_scale ax = (ax', None)
           \<and> ax_type ax' = PStr ''log''
           \<and> minallowed (ax_autorangeoptions ax') = log_image (minallowed (ax_autorangeoptions ax))
           \<and> maxallowed (ax_autorangeoptions ax') = log_image (maxallowed (ax_autorangeoptions ax)))"
  using assms
  by (auto simp: get_figure_axis_def set_axis_log_scale_def Let_def current_min_def current_max_def
      log10_or_none_image get_set_axis split: if_splits)

lemmas example_defs = example_state_def example_config_def example_dataset_def example_plot_def
  build_layout_def decimals_format_def or_empty_def py_eq_zero_def dict_get_def base_layout_def
  new_axis_def update_layout_def update_axis_def

theorem log_resolution_witness:
  "\<exists>lay' ax'.
      get_figure_axis example_plot example_dataset True True ''yaxis''
          (update_layout (base_layout [] False) (ds_layout example_dataset)) = (lay', None)
    \<and> get_axis lay' ''yaxis'' = Inr ax'
    \<and> ax_type ax' = PStr ''log''
    \<and> minallowed (ax_autorangeoptions ax') = PNone
    \<and> maxallowed (ax_autorangeoptions ax') = PFloat 2"
proof -
  let ?lay = "update_layout (base_layout [] False) (ds_layout example_dataset)"
  have a: "get_axis ?lay ''yaxis'' = Inr (lo_yaxis ?lay)"
    by (simp add: get_axis_def)
  have mn: "current_min example_dataset True ''yaxis'' (lo_yaxis ?lay) = PInt 0"
    by (simp add: current_min_def pct_range_get_def example_defs)
  have mx: "current_max example_dataset True ''yaxis'' (lo_yaxis ?lay) = PInt 100"
    by (simp add: current_max_def pct_range_get_def example_defs)
  have b: "is_bound (current_min example_dataset True ''yaxis'' (lo_yaxis ?lay))"
    by (simp add: mn is_bound_def)
  have c: "is_bound (current_max example_dataset True ''yaxis'' (lo_yaxis ?lay))"
    by (simp add: mx is_bound_def)
  have d: "is_bound (minallowed (ax_autorangeoptions (lo_yaxis ?lay)))"
    by (simp add: is_bound_def example_defs)
  have e: "is_bound (maxallowed (ax_autorangeoptions (lo_yaxis ?lay)))"
    by (simp add: is_bound_def example_defs)
  have i0: "log_image (PInt 0) = PNone"
    by (simp add: log_image_def)
  have i100: "log_image (PInt 100) = PFloat 2"
    by (simp add: log_image_def log10_100)
  from log_resolution [OF a b c d e, of example_plot]
  obtain lay' ax' where
      "get_figure_axis example_plot example_dataset True True ''yaxis'' ?lay = (lay', None)"
    and "get_axis lay' ''yaxis'' = Inr ax'"
    and "ax_type ax' = PStr ''log''"
    and "minallowed (ax_autorangeoptions ax') = PNone"
    and "maxallowed (ax_autorangeoptions ax') = PFloat 2"
    unfolding mn mx i0 i100 by blast
  then show ?thesis by blast
qed

subsection \<open>Repeatable rendering\<close>

lemma store_same [simp]: "store s la (cells s la) = s"
  by (simp add: store_def)

lemma store_store [simp]: "store (store s la v) la w = store s la w"
  by (simp add: store_def)

lemma cells_store [simp]: "cells (store s la v) a = (if a = la then v else cells s a)"
  by (simp add: store_def)

lemma fresh_store [simp]: "fresh (store s la v) = fresh s"
  by (simp add: store_def)

lemma get_figure_axes_resolve:
  "get_figure_axes s self ds is_log is_pct la axes =
     (store s la (fst (resolve_axes self ds is_log is_pct axes (cells s la))),
      snd (resolve_axes self ds is_log is_pct axes (cells s la)))"
proof (induction axes arbitrary: s)
  case Nil
  show ?case by simp
next
  case (Cons axis axes)
  show ?case
  proof (cases "get_figure_axis self ds is_log is_pct axis (cells s la)")
    case (Pair lay err)
    then show ?thesis
      by (cases err) (simp_all add: Cons.IH)
  qed
qed

lemma get_figure_unfold:
  "get_figure s self i is_log is_pct fl =
     (case py_index (datasets self) i of
        Inl e \<Rightarrow> (s, Inl e)
      | Inr ds \<Rightarrow>
          (let r = resolve_axes self ds is_log is_pct (axis_controlled_by_switches self)
                     (local_layout s self ds fl)
           in (store (s\<lparr>fresh := Suc (fresh s)\<rparr>) (fresh s) (fst r),
               case snd r of
                 Some e \<Rightarrow> Inl e
               | None \<Rightarrow> Inr (create_figure ds (fst r) is_log is_pct))))"
  by (auto simp: get_figure_def new_Layout_def get_figure_axes_resolve local_layout_def Let_def
      store_def split: sum.splits option.splits prod.splits)

lemma get_figure_cells:
  "a < fresh s \<Longrightarrow> cells (fst (get_figure s self i is_log is_pct fl)) a = cells s a"
  by (auto simp: get_figure_unfold Let_def store_def split: sum.splits)

lemma get_figure_fresh:
  "fresh s \<le> fresh (fst (get_figure s self i is_log is_pct fl))"
  by (auto simp: get_figure_unfold Let_def store_def split: sum.splits)

lemma get_figure_result_cong:
  "cells s' (layout self) = cells s (layout self) \<Longrightarrow>
   snd (get_figure s' self i is_log is_pct fl) = snd (get_figure s self i is_log is_pct fl)"
  by (auto simp: get_figure_unfold Let_def local_layout_def split: sum.splits)

lemma get_figure_axis_linear:
  "get_figure_axis self ds False False axis lay =
     (case get_axis lay axis of
        Inl e \<Rightarrow> (lay, Some e)
      | Inr ax \<Rightarrow> (set_axis lay axis (ax\<lparr>ax_type := PStr ''linear''\<rparr>), None))"
  by (auto simp: get_figure_axis_def Let_def split: sum.splits)

lemma get_figure_axis_linear_bounds:
  "bounds (fst (get_figure_axis self ds False False axis lay)) a = bounds lay a"
  by (auto simp: get_figure_axis_linear bounds_def get_axis_def set_axis_def split: sum.splits)

lemma resolve_axes_linear_bounds:
  "bounds (fst (resolve_axes self ds False False axes lay)) a = bounds lay a"
proof (induction axes arbitrary: lay)
  case Nil
  show ?case by simp
next
  case (Cons axis axes)
  show ?case
  proof (cases "get_figure_axis self ds False False axis lay")
    case (Pair lay' err)
    have "bounds lay' a = bounds lay a"
      using get_figure_axis_linear_bounds [of self ds axis lay a] Pair by simp
    then show ?thesis
      using Pair by (cases err) (simp_all add: Cons.IH)
  qed
qed

lemma resolve_axes_linear_ok:
  "set axes \<subseteq> {''xaxis'', ''yaxis''} \<Longrightarrow> snd (resolve_axes self ds False False axes lay) = None"
proof (induction axes arbitrary: lay)
  case Nil
  show ?case by simp
next
  case (Cons axis axes)
  then have "axis = ''xaxis'' \<or> axis = ''yaxis''" and rest: "set axes \<subseteq> {''xaxis'', ''yaxis''}"
    by auto
  then show ?case
    using Cons.IH [OF rest]
    by (auto simp: get_figure_axis_linear get_axis_def)
qed

lemma bounds_width [simp]: "bounds (lay\<lparr>lo_width := w\<rparr>) a = bounds lay a"
  by (simp add: bounds_def get_axis_def)

text \<open>
  Claim C1. A call of \<^verbatim>\<open>Plot.get_figure\<close> (for any dataset and any view, in particular
  the logarithmic percentage view) followed by a call for the linear raw view of a
  dataset gives the second call the result it has without the first. The layout object
  of the plot has its old contents after each call: every write goes to the copy. The
  plot and its datasets, with their percentage ranges, are only read. The figure of the
  second call carries, on every axis, the bounds configured for the dataset (the
  plot's layout updated by the dataset's layout), and the call succeeds when the
  controlled axes are the axes of the layout.
\<close>

theorem render_roundtrip:
  assumes "layout self < fresh s"
    and "get_figure s self j is_log is_pct fl1 = (s1, r1)"
    and "get_figure s1 self i False False fl = (s2, r2)"
    and "py_index (datasets self) i = Inr ds"
  shows "r2 = snd (get_figure s self i False False fl)
       \<and> cells s1 (layout self) = cells s (layout self)
       \<and> cells s2 (layout self) = cells s (layout self)
       \<and> (\<forall>fig axis. r2 = Inr fig \<longrightarrow>
             bounds (fig_layout fig) axis
               = bounds (update_layout (cells s (layout self)) (ds_layout ds)) axis)
       \<and> (set (axis_controlled_by_switches self) \<subseteq> {''xaxis'', ''yaxis''} \<longrightarrow> (\<exists>fig. r2 = Inr fig))"
proof -
  have c1: "cells s1 (layout self) = cells s (layout self)"
    using get_figure_cells [OF assms(1), of self j is_log is_pct fl1] assms(2) by simp
  have f1: "layout self < fresh s1"
    using get_figure_fresh [of s self j is_log is_pct fl1] assms(1,2) by simp
  have c2: "cells s2 (layout self) = cells s (layout self)"
    using get_figure_cells [OF f1, of self i False False fl] assms(3) c1 by simp
  have r: "r2 = snd (get_figure s self i False False fl)"
    using get_figure_result_cong [OF c1, of i False False fl] assms(3) by simp
  have b: "\<forall>fig axis. r2 = Inr fig \<longrightarrow>
             bounds (fig_layout fig) axis
               = bounds (update_layout (cells s (layout self)) (ds_layout ds)) axis"
    unfolding r using assms(4)
    by (auto simp: get_figure_unfold Let_def create_figure_def local_layout_def
        resolve_axes_linear_bounds split: option.splits)
  have ok: "set (axis_controlled_by_switches self) \<subseteq> {''xaxis'', ''yaxis''} \<longrightarrow> (\<exists>fig. r2 = Inr fig)"
    unfolding r using assms(4)
    by (auto simp: get_figure_unfold Let_def resolve_axes_linear_ok)
  show ?thesis using c1 c2 r b ok by blast
qed

theorem render_roundtrip_witness:
  "\<exists>s1 r1 s2 fig.
      get_figure example_state example_plot 0 True True False = (s1, r1)
    \<and> get_figure s1 example_plot 0 False False False = (s2, Inr fig)
    \<and> cells s1 0 = cells example_state 0
    \<and> cells s2 0 = cells example_state 0
    \<and> bounds (fig_layout fig) ''yaxis'' = Inr (PInt 5, PInt 50)"
proof -
  obtain s1 r1 where g1: "get_figure example_state example_plot 0 True True False = (s1, r1)"
    by (cases "get_figure example_state example_plot 0 True True False") blast
  obtain s2 r2 where g2: "get_figure s1 example_plot 0 False False False = (s2, r2)"
    by (cases "get_figure s1 example_plot 0 False False False") blast
  have wf: "layout example_plot < fresh example_state"
    by (simp add: example_plot_def example_state_def)
  have ix: "py_index (datasets example_plot) 0 = Inr example_dataset"
    by (simp add: py_index_def example_plot_def)
  have ax: "set (axis_controlled_by_switches example_plot) \<subseteq> {''xaxis'', ''yaxis''}"
    by (simp add: example_plot_def)
  have l0: "layout example_plot = 0"
    by (simp add: example_plot_def)
  have cfgd: "bounds (update_layout (cells example_state 0) (ds_layout example_dataset)) ''yaxis''
                = Inr (PInt 5, PInt 50)"
    by (simp add: bounds_def get_axis_def example_defs)
  from render_roundtrip [OF wf g1 g2 ix] ax obtain fig where "r2 = Inr fig"
    and "cells s1 0 = cells example_state 0"
    and "cells s2 0 = cells example_state 0"
    and "bounds (fig_layout fig) ''yaxis'' = Inr (PInt 5, PInt 50)"
    unfolding l0 cfgd [symmetric] by blast
  with g1 g2 show ?thesis by blast
qed

subsection \<open>Static images: caller errors\<close>

text \<open>
  Claim C10. \<^verbatim>\<open>fig_to_static_html\<close> fails with an assertion error for a figure whose
  layout has no width, and with a value error when no file name is given and the plots
  are exported or the image is not embedded. With a width and a file name it returns
  an image.
\<close>

theorem static_image_caller_errors:
  "(\<not> truthy (lo_width (fig_layout fig)) \<longrightarrow>
      fig_to_static_html cfg fig active export_arg embed_arg file_name = Inl AssertionError)
 \<and> (truthy (lo_width (fig_layout fig)) \<and> export_arg \<longrightarrow>
      fig_to_static_html cfg fig active export_arg embed_arg None
        = Inl (ValueError ''file_name is required for export_plots''))
 \<and> (truthy (lo_width (fig_layout fig)) \<and> \<not> export_arg \<and> \<not> embed_arg \<longrightarrow>
      fig_to_static_html cfg fig active export_arg embed_arg None
        = Inl (ValueError ''file_name is required for non-embedded plots''))
 \<and> (truthy (lo_width (fig_layout fig)) \<longrightarrow>
      (\<exists>img. fig_to_static_html cfg fig active export_arg embed_arg (Some f) = Inr img))"
  by (simp add: fig_to_static_html_def)

theorem static_image_caller_errors_witness:
  "fig_to_static_html example_config
      (create_figure example_dataset (base_layout [] False) False False)
      True False True (Some ''p'') = Inl AssertionError
 \<and> fig_to_static_html example_config
      (create_figure example_dataset (base_layout [(''width'', PInt 1100)] False) False False)
      True True True None = Inl (ValueError ''file_name is required for export_plots'')
 \<and> fig_to_static_html example_config
      (create_figure example_dataset (base_layout [(''width'', PInt 1100)] False) False False)
      True False False None = Inl (ValueError ''file_name is required for non-embedded plots'')
 \<and> (\<exists>img. fig_to_static_html example_config
      (create_figure example_dataset (base_layout [(''width'', PInt 1100)] False) False False)
      True True False (Some ''p'') = Inr img)"
proof -
  let ?f0 = "create_figure example_dataset (base_layout [] False) False False"
  let ?f1 = "create_figure example_dataset (base_layout [(''width'', PInt 1100)] False) False False"
  have w0: "\<not> truthy (lo_width (fig_layout ?f0))"
    by (simp add: create_figure_def base_layout_def dict_get_def)
  have w1: "truthy (lo_width (fig_layout ?f1))"
    by (simp add: create_figure_def base_layout_def dict_get_def)
  show ?thesis
    using static_image_caller_errors [of ?f0 example_config True False True "Some ''p''"]
      static_image_caller_errors [of ?f1 example_config True True True None]
      static_image_caller_errors [of ?f1 example_config True False False None]
      static_image_caller_errors [of ?f1 example_config True True False None "''p''"]
      w0 w1
    by blast
qed

subsection \<open>Known suffixes\<close>

text \<open>
  Claim C9. The loop over the known suffixes compares the suffix with the stripped
  token, never the stripped suffix with it: a bare \<^verbatim>\<open>bp\<close> becomes \<^verbatim>\<open> bp\<close> and a bare \<^verbatim>\<open>%\<close>
  stays, but a suffix \<^verbatim>\<open> %\<close> with a space before it equals no stripped token and is kept
  as it is, up to the tick suffix of the dataset's layout.
\<close>

theorem space_padded_percent_kept:
  "set_known_suffix (PStr ''%'') = PStr ''%''
 \<and> set_known_suffix (PStr ''bp'') = PStr '' bp''
 \<and> set_known_suffix (PStr '' %'') = PStr '' %''
 \<and> map_sum id (\<lambda>r. ad_ticksuffix (ld_yaxis (fst r)))
       (dataset_layout [(''ysuffix'', PStr '' %'')] [] None) = Inr (PStr '' %'')"
  by (simp add: set_known_suffix_def known_suffix_step_def KNOWN_SUFFIXES_def py_strip_def
      is_space_def dataset_layout_def dict_update_def resolve_suffixes_def dict_get_def
      suffix_from_labformat_def suffix_from_lab_def resolve_tt_label_def build_layout_def
      or_empty_def Let_def)

subsection \<open>What a returned plot is made of\<close>

lemma validate_bool_PBool [simp]: "validate_bool (PBool b) = Inr b"
  by (simp add: validate_bool_def)

lemma validate_bool_falsy:
  "\<not> truthy v \<Longrightarrow> validate_bool v = Inr b \<Longrightarrow> b = False"
  by (cases v) (auto simp: validate_bool_def py_lower_def split: if_splits)

lemma make_plot_Inr:
  assumes "make_plot ptype pconf id_v dsets la (lv, pt, av, pa) axes flat_v = Inr p"
  shows "validate_str id_v = Inr (p_id p) \<and> validate_bool lv = Inr (add_log_tab p)
       \<and> validate_bool av = Inr (l_active p) \<and> add_pct_tab p = pt \<and> p_active p = pa
       \<and> datasets p = dsets \<and> layout p = la \<and> axis_controlled_by_switches p = axes"
proof -
  from assms obtain id_s lb ab sq where
      "validate_str id_v = Inr id_s" "validate_bool lv = Inr lb" "validate_bool av = Inr ab"
      and p: "p = \<lparr>p_id = id_s, plot_type = ptype, layout = la, datasets = dsets,
                  pconfig = pconfig_after pconf dsets,
                  add_log_tab = lb, add_pct_tab = pt, l_active = ab, p_active = pa,
                  pct_axis_update =
                    \<lparr>pau_ticksuffix = PStr ''%'', pau_hoverformat = Format ''.1f''\<rparr>,
                  axis_controlled_by_switches = axes, square = sq, flat = flat_v\<rparr>"
    unfolding make_plot_def by (auto split: sum.splits)
  then show ?thesis by simp
qed

lemma initialize_from_layout_Inr:
  assumes "initialize_from_layout s ptype pconf n id_v axes0 tt flags flat_v la = (s', Inr p)"
  shows "\<exists>s3 axes dsets.
           initialize_datasets s3 pconf (py_or (dict_get pconf ''data_labels'' PNone) (PList []))
             n id_v tt [0 ..< nat n] = (s', Inr dsets)
         \<and> make_plot ptype pconf id_v dsets la flags axes flat_v = Inr p"
proof -
  let ?x = "if truthy (dict_get pconf ''xlog'' (dict_get pconf ''xLog'' PNone))
            then static_log_axis s la ''xaxis'' axes0 else (s, Inr axes0)"
  obtain s1 r1 where x: "?x = (s1, r1)" by (cases ?x) blast
  show ?thesis
  proof (cases r1)
    case (Inl e)
    with assms x show ?thesis by (simp add: initialize_from_layout_def)
  next
    case (Inr axes1)
    let ?y = "if truthy (dict_get pconf ''ylog'' (dict_get pconf ''yLog'' PNone))
              then static_log_axis s1 la ''yaxis'' axes1 else (s1, Inr axes1)"
    obtain s2 r2 where y: "?y = (s2, r2)" by (cases ?y) blast
    show ?thesis
    proof (cases r2)
      case (Inl e)
      with assms x y Inr show ?thesis by (simp add: initialize_from_layout_def)
    next
      case r2: (Inr axes2)
      let ?z = "if truthy (fst flags) \<and> truthy (fst (snd (snd flags)))
                then set_log_types s2 la axes2 else (s2, None)"
      obtain s3 r3 where z: "?z = (s3, r3)" by (cases ?z) blast
      show ?thesis
      proof (cases r3)
        case (Some e)
        with assms x y z Inr r2 show ?thesis by (simp add: initialize_from_layout_def)
      next
        case None
        let ?d = "initialize_datasets s3 pconf
                    (py_or (dict_get pconf ''data_labels'' PNone) (PList [])) n id_v tt [0 ..< nat n]"
        obtain s4 r4 where d: "?d = (s4, r4)" by (cases ?d) blast
        show ?thesis
        proof (cases r4)
          case (Inl e)
          with assms x y z d Inr r2 None show ?thesis
            by (simp add: initialize_from_layout_def Let_def)
        next
          case r4: (Inr dsets)
          with assms x y z d Inr r2 None
          have "s' = s4" and "make_plot ptype pconf id_v dsets la flags axes2 flat_v = Inr p"
            by (simp_all add: initialize_from_layout_def Let_def)
          with d r4 show ?thesis by blast
        qed
      qed
    qed
  qed
qed

lemma initialize_Inr:
  assumes "initialize s cfg ptype pconf n id_arg axes_arg tt u = (s', Inr p)"
  shows "n \<noteq> 0 \<and> (\<exists>s3 axes la flat_v.
           initialize_datasets s3 pconf (py_or (dict_get pconf ''data_labels'' PNone) (PList []))
             n (resolve_id id_arg pconf u) tt [0 ..< nat n] = (s', Inr (datasets p))
         \<and> make_plot ptype pconf (resolve_id id_arg pconf u) (datasets p) la
             (switch_flags ptype pconf) axes flat_v = Inr p)"
proof -
  have n: "n \<noteq> 0"
    using assms by (auto simp: initialize_def)
  from assms n obtain s2 flat_v la axes0 where
    "initialize_from_layout s2 ptype pconf n (resolve_id id_arg pconf u) axes0 tt
       (switch_flags ptype pconf) flat_v la = (s', Inr p)"
    by (auto simp: initialize_def Let_def split: prod.splits)
  from initialize_from_layout_Inr [OF this] obtain s3 axes dsets where
      d: "initialize_datasets s3 pconf (py_or (dict_get pconf ''data_labels'' PNone) (PList []))
            n (resolve_id id_arg pconf u) tt [0 ..< nat n] = (s', Inr dsets)"
    and m: "make_plot ptype pconf (resolve_id id_arg pconf u) dsets la
              (switch_flags ptype pconf) axes flat_v = Inr p"
    by blast
  obtain lv pt av pa where f: "switch_flags ptype pconf = (lv, pt, av, pa)"
    by (cases "switch_flags ptype pconf") auto
  have "datasets p = dsets"
    using make_plot_Inr [OF m [unfolded f]] by simp
  with d m n show ?thesis by blast
qed

subsection \<open>Switches\<close>

lemma switch_flags_eq:
  "switch_flags ptype pconf =
     (py_and (dict_get pconf ''logswitch'' (PBool False)) (PBool (ptype = BAR \<or> ptype = LINE)),
      dict_get pconf ''cpswitch'' (PBool True) \<noteq> PBool False \<and> ptype = BAR,
      py_and (py_and (dict_get pconf ''logswitch'' (PBool False)) (PBool (ptype = BAR \<or> ptype = LINE)))
             (PBool (dict_get pconf ''logswitch_active'' PNone = PBool True)),
      (dict_get pconf ''cpswitch'' (PBool True) \<noteq> PBool False \<and> ptype = BAR)
        \<and> dict_get pconf ''cpswitch_c_active'' (PBool True) \<noteq> PBool True)"
  by (simp add: switch_flags_def Let_def)

lemma make_plot_flags:
  assumes "make_plot ptype pconf id_v dsets la (switch_flags ptype pconf) axes flat_v = Inr p"
  shows "add_pct_tab p = (ptype = BAR \<and> dict_get pconf ''cpswitch'' (PBool True) \<noteq> PBool False)
       \<and> p_active p = (add_pct_tab p \<and> dict_get pconf ''cpswitch_c_active'' (PBool True) \<noteq> PBool True)
       \<and> add_log_tab p = (truthy (dict_get pconf ''logswitch'' (PBool False))
                           \<and> (ptype = BAR \<or> ptype = LINE))
       \<and> l_active p = (add_log_tab p \<and> dict_get pconf ''logswitch_active'' PNone = PBool True)"
proof -
  let ?L = "dict_get pconf ''logswitch'' (PBool False)"
  let ?K = "ptype = BAR \<or> ptype = LINE"
  let ?A = "dict_get pconf ''logswitch_active'' PNone = PBool True"
  note m = make_plot_Inr [OF assms [unfolded switch_flags_eq]]
  have pt: "add_pct_tab p = (ptype = BAR \<and> dict_get pconf ''cpswitch'' (PBool True) \<noteq> PBool False)"
    using m by auto
  have pa: "p_active p = (add_pct_tab p \<and> dict_get pconf ''cpswitch_c_active'' (PBool True) \<noteq> PBool True)"
    using m by auto
  have lv: "validate_bool (py_and ?L (PBool ?K)) = Inr (add_log_tab p)"
    using m by simp
  have av: "validate_bool (py_and (py_and ?L (PBool ?K)) (PBool ?A)) = Inr (l_active p)"
    using m by simp
  show ?thesis
  proof (cases "truthy ?L")
    case True
    then have "add_log_tab p = ?K"
      using lv by (simp add: py_and_def)
    moreover have "l_active p = (?K \<and> ?A)"
      using av True by (cases ?K) (simp_all add: py_and_def)
    ultimately show ?thesis using pt pa True by simp
  next
    case False
    then have "add_log_tab p = False"
      using lv validate_bool_falsy [of ?L "add_log_tab p"] by (simp add: py_and_def)
    moreover have "l_active p = False"
      using av False validate_bool_falsy [of ?L "l_active p"] by (simp add: py_and_def)
    ultimately show ?thesis using pt pa False by simp
  qed
qed

text \<open>
  Claim C5, as amended. For a plot that \<^verbatim>\<open>Plot.initialize\<close> returns: the percentage
  switch exists for a bar plot unless \<^verbatim>\<open>cpswitch\<close> is \<^verbatim>\<open>False\<close>, and the percentage view is
  active only when \<^verbatim>\<open>cpswitch_c_active\<close> is present and not \<^verbatim>\<open>True\<close>: by default the counts
  are active. The log switch exists only for a bar or line plot and only when
  \<^verbatim>\<open>logswitch\<close> is set to a true value; the log view is active only when
  \<^verbatim>\<open>logswitch_active\<close> is \<^verbatim>\<open>True\<close>.
\<close>

theorem switch_flags_of_plot:
  assumes "initialize s cfg ptype pconf n id_arg axes_arg tt u = (s', Inr p)"
  shows "add_pct_tab p = (ptype = BAR \<and> dict_get pconf ''cpswitch'' (PBool True) \<noteq> PBool False)
       \<and> p_active p = (add_pct_tab p \<and> dict_get pconf ''cpswitch_c_active'' (PBool True) \<noteq> PBool True)
       \<and> add_log_tab p = (truthy (dict_get pconf ''logswitch'' (PBool False))
                           \<and> (ptype = BAR \<or> ptype = LINE))
       \<and> l_active p = (add_log_tab p \<and> dict_get pconf ''logswitch_active'' PNone = PBool True)"
proof -
  from initialize_Inr [OF assms] obtain la axes flat_v where
    "make_plot ptype pconf (resolve_id id_arg pconf u) (datasets p) la
       (switch_flags ptype pconf) axes flat_v = Inr p"
    by blast
  then show ?thesis by (rule make_plot_flags)
qed

lemmas eval_defs =
  initialize_def initialize_from_layout_def resolve_id_def make_plot_def pconfig_after_def
  initialize_dataset_def static_log_axis_def base_layout_def new_axis_def switch_flags_def
  is_str_or_dict_def py_getitem_def py_len_def validate_bool_def validate_str_def py_or_def py_and_def
  dataset_layout_def build_trace_params_def build_layout_def resolve_suffixes_def resolve_tt_label_def
  decimals_format_def or_empty_def py_eq_zero_def tt_label_branch_def strip_suffix_from_label_def
  tt_part_step_def tt_suffix_def tt_info_def suffix_from_lab_def set_known_suffix_def
  known_suffix_step_def suffix_from_labformat_def KNOWN_SUFFIXES_def clean_config_tt_label_def
  replace_d_def digit_char_def py_split_def py_endswith_def py_startswith_def py_lower_def
  lower_char_def py_strip_def is_space_def dict_update_def dict_pop_def dict_del_def dict_set_def
  dict_get_def dict_has_def new_Layout_def store_def get_axis_def set_axis_def
  set_axis_log_scale_def Let_def example_state_def example_config_def str_nat.simps

text \<open>
  Claim C5 as stated fails: a bar plot with no switch key in its configuration has the
  percentage switch, and the percentage view is not the active one.
\<close>

theorem percent_view_inactive_by_default:
  "map_sum id (\<lambda>p. (add_pct_tab p, p_active p))
     (snd (initialize example_state example_config BAR
             [(''id'', PStr ''p''), (''title'', PStr ''Reads'')] 1 None (Some [''yaxis'']) None
             ''abcdefghij''))
   = Inr (True, False)"
  by (simp add: eval_defs)

theorem switch_flags_of_plot_witness:
  "\<exists>s' p. initialize example_state example_config BAR
             [(''id'', PStr ''p''), (''title'', PStr ''Reads''), (''logswitch'', PBool True),
              (''cpswitch_c_active'', PBool False)]
             1 None (Some [''yaxis'']) None ''abcdefghij'' = (s', Inr p)
         \<and> add_pct_tab p \<and> p_active p \<and> add_log_tab p \<and> \<not> l_active p"
proof -
  let ?pc = "[(''id'', PStr ''p''), (''title'', PStr ''Reads''), (''logswitch'', PBool True),
              (''cpswitch_c_active'', PBool False)]"
  let ?r = "initialize example_state example_config BAR ?pc 1 None (Some [''yaxis'']) None
              ''abcdefghij''"
  have "\<not> isl (snd ?r)"
    by (simp add: eval_defs)
  then obtain s' p where r: "?r = (s', Inr p)"
    by (cases ?r; cases "snd ?r") auto
  from switch_flags_of_plot [OF r]
  have "add_pct_tab p \<and> p_active p \<and> add_log_tab p \<and> \<not> l_active p"
    by (simp add: dict_get_def)
  with r show ?thesis by blast
qed

subsection \<open>The exceptions of initialisation\<close>

lemma is_value_error_simps [simp]:
  "is_value_error (ValueError m)" "\<not> is_value_error (KeyError k)" "\<not> is_value_error IndexError"
  "\<not> is_value_error TypeError" "\<not> is_value_error AttributeError"
  "\<not> is_value_error AssertionError" "\<not> is_value_error ValidationError"
  by (simp_all add: is_value_error_def)

lemma log10_or_none_error: "log10_or_none v = Inl e \<Longrightarrow> \<not> is_value_error e"
  by (cases v) auto

lemma set_axis_log_scale_error: "set_axis_log_scale ax = (ax', Some e) \<Longrightarrow> \<not> is_value_error e"
  by (auto simp: set_axis_log_scale_def Let_def split: sum.splits dest: log10_or_none_error)

lemma get_axis_error: "get_axis lay axis = Inl e \<Longrightarrow> \<not> is_value_error e"
  by (auto simp: get_axis_def split: if_splits)

lemma static_log_axis_error:
  "static_log_axis s la axis axes = (s', Inl e) \<Longrightarrow> \<not> is_value_error e"
  by (auto simp: static_log_axis_def split: sum.splits prod.splits option.splits
      dest: get_axis_error set_axis_log_scale_error)

lemma set_log_types_error:
  "set_log_types s la axes = (s', Some e) \<Longrightarrow> \<not> is_value_error e"
proof (induction axes arbitrary: s)
  case Nil
  then show ?case by simp
next
  case (Cons axis axes)
  then show ?case
    by (cases "get_axis (cells s la) axis") (auto dest: get_axis_error)
qed

lemma suffix_from_labformat_error:
  "suffix_from_labformat sfx labformat = Inl e \<Longrightarrow> \<not> is_value_error e"
  by (cases labformat) (auto simp: suffix_from_labformat_def Let_def split: if_splits)

lemma suffix_from_lab_error:
  "suffix_from_lab sfx lab = Inl e \<Longrightarrow> \<not> is_value_error e"
  by (cases lab) (auto simp: suffix_from_lab_def Let_def split: if_splits)

lemma strip_suffix_from_label_error:
  "strip_suffix_from_label ph sfx t = Inl e \<Longrightarrow> \<not> is_value_error e"
  by (cases sfx) (auto simp: strip_suffix_from_label_def Let_def)

lemma tt_label_branch_error:
  "tt_label_branch raw ysuffix xsuffix = Inl e \<Longrightarrow> \<not> is_value_error e"
  by (cases raw)
    (auto simp: tt_label_branch_def Let_def split: prod.splits sum.splits
      dest: strip_suffix_from_label_error)

lemma resolve_suffixes_error:
  "resolve_suffixes pconf = Inl e \<Longrightarrow> \<not> is_value_error e"
  by (auto simp: resolve_suffixes_def Let_def split: sum.splits
      dest: suffix_from_labformat_error suffix_from_lab_error)

lemma resolve_tt_label_error:
  "resolve_tt_label pconf tt ysuffix xsuffix = Inl e \<Longrightarrow> \<not> is_value_error e"
  by (auto simp: resolve_tt_label_def split: if_splits sum.splits prod.splits
      dest: tt_label_branch_error)

lemma dataset_layout_error:
  "dataset_layout pconf dconf tt = Inl e \<Longrightarrow> \<not> is_value_error e"
  by (auto simp: dataset_layout_def Let_def split: sum.splits prod.splits
      dest: resolve_suffixes_error resolve_tt_label_error)

lemma validate_str_error: "validate_str v = Inl e \<Longrightarrow> \<not> is_value_error e"
  by (cases v) (auto simp: validate_str_def)

lemma validate_bool_error: "validate_bool v = Inl e \<Longrightarrow> \<not> is_value_error e"
  by (cases v) (auto simp: validate_bool_def split: if_splits)

lemma py_len_error: "py_len v = Inl e \<Longrightarrow> \<not> is_value_error e"
  by (cases v) (auto simp: py_len_def)

lemma py_getitem_error: "py_getitem v idx = Inl e \<Longrightarrow> \<not> is_value_error e"
  by (cases v) (auto simp: py_getitem_def split: if_splits)

lemma initialize_dataset_error:
  "initialize_dataset s pconf dc n id_v tt idx = (s', Inl e) \<Longrightarrow> \<not> is_value_error e"
  by (auto simp: initialize_dataset_def Let_def split: sum.splits prod.splits if_splits
      dest: validate_str_error py_len_error py_getitem_error dataset_layout_error)

lemma initialize_datasets_error:
  "initialize_datasets s pconf dc n id_v tt idxs = (s', Inl e) \<Longrightarrow> \<not> is_value_error e"
proof (induction idxs arbitrary: s s')
  case Nil
  then show ?case by simp
next
  case (Cons idx idxs)
  obtain s1 r1 where a: "initialize_dataset s pconf dc n id_v tt idx = (s1, r1)"
    by (cases "initialize_dataset s pconf dc n id_v tt idx") blast
  show ?case
  proof (cases r1)
    case (Inl e1)
    with Cons.prems a show ?thesis
      by (auto dest: initialize_dataset_error)
  next
    case (Inr d)
    obtain s2 r2 where b: "initialize_datasets s1 pconf dc n id_v tt idxs = (s2, r2)"
      by (cases "initialize_datasets s1 pconf dc n id_v tt idxs") blast
    show ?thesis
    proof (cases r2)
      case (Inl e2)
      with Cons.prems a b Inr have "e = e2" by simp
      with Cons.IH [of s1 s2] b Inl show ?thesis by simp
    next
      case r2: (Inr ds)
      with Cons.prems a b Inr show ?thesis by simp
    qed
  qed
qed

lemma make_plot_error:
  "make_plot ptype pconf id_v dsets la flags axes flat_v = Inl e \<Longrightarrow> \<not> is_value_error e"
  by (auto simp: make_plot_def split: prod.splits sum.splits
      dest: validate_str_error validate_bool_error)

lemma initialize_from_layout_error:
  assumes "initialize_from_layout s ptype pconf n id_v axes0 tt flags flat_v la = (s', Inl e)"
  shows "\<not> is_value_error e"
proof -
  let ?x = "if truthy (dict_get pconf ''xlog'' (dict_get pconf ''xLog'' PNone))
            then static_log_axis s la ''xaxis'' axes0 else (s, Inr axes0)"
  obtain s1 r1 where x: "?x = (s1, r1)" by (cases ?x) blast
  show ?thesis
  proof (cases r1)
    case (Inl e1)
    with assms x have "e = e1" by (simp add: initialize_from_layout_def)
    with x Inl show ?thesis
      by (auto split: if_splits dest: static_log_axis_error)
  next
    case (Inr axes1)
    let ?y = "if truthy (dict_get pconf ''ylog'' (dict_get pconf ''yLog'' PNone))
              then static_log_axis s1 la ''yaxis'' axes1 else (s1, Inr axes1)"
    obtain s2 r2 where y: "?y = (s2, r2)" by (cases ?y) blast
    show ?thesis
    proof (cases r2)
      case (Inl e2)
      with assms x y Inr have "e = e2" by (simp add: initialize_from_layout_def)
      with y Inl show ?thesis
        by (auto split: if_splits dest: static_log_axis_error)
    next
      case r2: (Inr axes2)
      let ?z = "if truthy (fst flags) \<and> truthy (fst (snd (snd flags)))
                then set_log_types s2 la axes2 else (s2, None)"
      obtain s3 r3 where z: "?z = (s3, r3)" by (cases ?z) blast
      show ?thesis
      proof (cases r3)
        case (Some e3)
        with assms x y z Inr r2 have "e = e3" by (simp add: initialize_from_layout_def)
        with z Some show ?thesis
          by (auto split: if_splits dest: set_log_types_error)
      next
        case None
        let ?d = "initialize_datasets s3 pconf
                    (py_or (dict_get pconf ''data_labels'' PNone) (PList [])) n id_v tt [0 ..< nat n]"
        obtain s4 r4 where d: "?d = (s4, r4)" by (cases ?d) blast
        show ?thesis
        proof (cases r4)
          case (Inl e4)
          with assms x y z d Inr r2 None have "e = e4"
            by (simp add: initialize_from_layout_def Let_def)
          with d Inl show ?thesis
            by (auto dest: initialize_datasets_error)
        next
          case r4: (Inr dsets)
          with assms x y z d Inr r2 None
          have "make_plot ptype pconf id_v dsets la flags axes2 flat_v = Inl e"
            by (simp add: initialize_from_layout_def Let_def)
          then show ?thesis by (rule make_plot_error)
        qed
      qed
    qed
  qed
qed

text \<open>
  Claim C7. With no dataset \<^verbatim>\<open>Plot.initialize\<close> raises the value error "No datasets to
  plot" before anything else: no plot is returned and the state is as before. With any
  other number of datasets this error is not raised.
\<close>

theorem zero_datasets_error:
  "initialize s cfg ptype pconf 0 id_arg axes_arg tt u
     = (s, Inl (ValueError ''No datasets to plot''))
 \<and> (n \<noteq> 0 \<longrightarrow>
      snd (initialize s cfg ptype pconf n id_arg axes_arg tt u)
        \<noteq> Inl (ValueError ''No datasets to plot''))"
proof -
  have z: "initialize s cfg ptype pconf 0 id_arg axes_arg tt u
             = (s, Inl (ValueError ''No datasets to plot''))"
    by (simp add: initialize_def)
  have nz: "snd (initialize s cfg ptype pconf n id_arg axes_arg tt u)
              \<noteq> Inl (ValueError ''No datasets to plot'')" if n: "n \<noteq> 0"
  proof
    assume a: "snd (initialize s cfg ptype pconf n id_arg axes_arg tt u)
                 = Inl (ValueError ''No datasets to plot'')"
    obtain s' where "initialize s cfg ptype pconf n id_arg axes_arg tt u
                       = (s', Inl (ValueError ''No datasets to plot''))"
      using a by (cases "initialize s cfg ptype pconf n id_arg axes_arg tt u") auto
    with n obtain s2 id_v axes0 flags flat_v la where
      "initialize_from_layout s2 ptype pconf n id_v axes0 tt flags flat_v la
         = (s', Inl (ValueError ''No datasets to plot''))"
      by (auto simp: initialize_def Let_def split: prod.splits)
    from initialize_from_layout_error [OF this] show False by simp
  qed
  from z nz show ?thesis by blast
qed

theorem zero_datasets_error_witness:
  "initialize example_state example_config BAR [(''id'', PStr ''p'')] 0 None None None
       ''abcdefghij''
     = (example_state, Inl (ValueError ''No datasets to plot''))
 \<and> snd (initialize example_state example_config BAR [(''id'', PStr ''p'')] 1 None None None
          ''abcdefghij'')
     \<noteq> Inl (ValueError ''No datasets to plot'')"
  using zero_datasets_error [of example_state example_config BAR "[(''id'', PStr ''p'')]"
      None None None "''abcdefghij''" 1]
  by simp

end
